theory Spec2Isabelle
  imports Complex_Main "HOL-Library.Product_Lexorder" "HOL-Library.Multiset"
begin

section \<open>JavaScript values\<close>

text \<open>
  The weather fields of \<^verbatim>\<open>forecast.jsx\<close> hold a number, \<^verbatim>\<open>null\<close> or
  \<^verbatim>\<open>undefined\<close> (the property is not set). Numbers are modelled as exact rationals:
  the payload is decoded JSON, so NaN and the infinities do not occur in it, and rounding
  is not part of the model.
\<close>

datatype jsval = Undefined | Null | Num rat

text \<open>\<^verbatim>\<open>ToNumber\<close> as the relational operators apply it: \<^verbatim>\<open>undefined\<close> becomes NaN
  (here \<open>None\<close>), \<^verbatim>\<open>null\<close> becomes 0. A comparison with NaN is false.\<close>

fun toNumber :: "jsval \<Rightarrow> rat option" where
  "toNumber Undefined = None"
| "toNumber Null = Some 0"
| "toNumber (Num r) = Some r"

definition js_gt :: "jsval \<Rightarrow> rat \<Rightarrow> bool" where
  "js_gt v c = (case toNumber v of None \<Rightarrow> False | Some r \<Rightarrow> r > c)"

definition js_lt :: "jsval \<Rightarrow> rat \<Rightarrow> bool" where
  "js_lt v c = (case toNumber v of None \<Rightarrow> False | Some r \<Rightarrow> r < c)"

text \<open>\<^verbatim>\<open>v !== undefined && v !== null\<close>\<close>

fun present :: "jsval \<Rightarrow> bool" where
  "present (Num r) = True"
| "present v = False"

text \<open>\<^verbatim>\<open>v ?? 0\<close>\<close>

fun nullish0 :: "jsval \<Rightarrow> jsval" where
  "nullish0 (Num r) = Num r"
| "nullish0 v = Num 0"

text \<open>\<^verbatim>\<open>v ?? null\<close>\<close>

fun nullishNull :: "jsval \<Rightarrow> jsval" where
  "nullishNull (Num r) = Num r"
| "nullishNull v = Null"

text \<open>The numbers among a list of values, in order:
  \<^verbatim>\<open>xs.filter(t => t !== undefined && t !== null)\<close>.\<close>

fun nums :: "jsval list \<Rightarrow> rat list" where
  "nums [] = []"
| "nums (Num r # vs) = r # nums vs"
| "nums (v # vs) = nums vs"

section \<open>Array.prototype.sort with a comparator\<close>

text \<open>
  \<^verbatim>\<open>xs.sort(cmp)\<close> is stable, and for a consistent comparator its result is the one
  stable ordering of the elements; it is modelled by stable insertion.
\<close>

fun insert_cmp :: "('a \<Rightarrow> 'a \<Rightarrow> int) \<Rightarrow> 'a \<Rightarrow> 'a list \<Rightarrow> 'a list" where
  "insert_cmp cmp x [] = [x]"
| "insert_cmp cmp x (y # ys) =
     (if cmp x y \<le> 0 then x # y # ys else y # insert_cmp cmp x ys)"

definition js_sort :: "('a \<Rightarrow> 'a \<Rightarrow> int) \<Rightarrow> 'a list \<Rightarrow> 'a list" where
  "js_sort cmp xs = foldr (insert_cmp cmp) xs []"

section \<open>Dates and month keys\<close>

text \<open>
  A date string of the payload is represented by the \<^verbatim>\<open>Date\<close> object that
  \<^verbatim>\<open>new Date(day.date)\<close> builds from it, read through the three accessors the code
  uses. \<open>getMonth\<close> is zero-based, as in JavaScript, where it is below 12.
\<close>

record jsdate =
  getTime :: int
  getFullYear :: int
  getMonth :: nat

text \<open>
  The key \<^verbatim>\<open>`${date.getFullYear()}-${String(date.getMonth()+1).padStart(2,"0")}`\<close>
  is represented by the pair of numbers it is formatted from.
\<close>

type_synonym month_key = "int \<times> nat"

definition monthKey :: "jsdate \<Rightarrow> month_key" where
  "monthKey d = (getFullYear d, getMonth d + 1)"

text \<open>\<^verbatim>\<open>a.localeCompare(b)\<close> on two keys. The code compares keys of the same year only,
  which differ in the two digits of the month.\<close>

definition localeCompare :: "month_key \<Rightarrow> month_key \<Rightarrow> int" where
  "localeCompare a b = (if a < b then - 1 else if a = b then 0 else 1)"

section \<open>getMonthName\<close>

definition monthNames :: "string list" where
  "monthNames =
     [''January'', ''February'', ''March'', ''April'', ''May'', ''June'',
      ''July'', ''August'', ''September'', ''October'', ''November'', ''December'']"

definition shortMonthNames :: "string list" where
  "shortMonthNames =
     [''Jan'', ''Feb'', ''Mar'', ''Apr'', ''May'', ''Jun'',
      ''Jul'', ''Aug'', ''Sep'', ''Oct'', ''Nov'', ''Dec'']"

text \<open>\<^verbatim>\<open>names[month - 1]\<close> inside a template string: an index outside the array
  reads \<^verbatim>\<open>undefined\<close>, which the template prints as such.\<close>

definition name_at :: "string list \<Rightarrow> nat \<Rightarrow> string" where
  "name_at names m = (if 1 \<le> m \<and> m \<le> length names then names ! (m - 1) else ''undefined'')"

fun digits :: "nat \<Rightarrow> string" where
  "digits n =
     (if n < 10 then [''0123456789'' ! n]
      else digits (n div 10) @ [''0123456789'' ! (n mod 10)])"

declare digits.simps [simp del]

text \<open>\<^verbatim>\<open>year.toString()\<close> of an integer.\<close>

definition toString :: "int \<Rightarrow> string" where
  "toString y = (if y < 0 then ''-'' @ digits (nat (- y)) else digits (nat y))"

text \<open>\<^verbatim>\<open>s.slice(-2)\<close>\<close>

definition slice2 :: "string \<Rightarrow> string" where
  "slice2 s = drop (length s - 2) s"

definition getMonthName :: "nat \<Rightarrow> int option \<Rightarrow> bool \<Rightarrow> string" where
  "getMonthName m yr abbreviated =
     (let monthName = (if abbreviated then name_at shortMonthNames m else name_at monthNames m)
      in case yr of Some y \<Rightarrow> monthName @ '' '' @ slice2 (toString y) | None \<Rightarrow> monthName)"

section \<open>processApiData\<close>

record dated =
  date :: jsdate

record daily_record = dated +
  temp :: jsval
  precip :: jsval
  wind :: jsval

record param_entry =
  dates :: "jsdate list option"
  values' :: "rat list option"

text \<open>The decoded payload \<^verbatim>\<open>{ data: { CODE: { dates, values } }, available }\<close>; the object
  \<^verbatim>\<open>data\<close> is the list of its entries, and a missing property is \<open>None\<close>.\<close>

record api_data =
  data :: "(string \<times> param_entry) list option"
  available :: "string list"

record month_base =
  month :: month_key
  year :: int

text \<open>The entries of \<^verbatim>\<open>monthlyData\<close>. Their \<^verbatim>\<open>monthName\<close>, the month's long name in
  the browser's locale, is never read, and is left out.\<close>

record month_acc = month_base +
  tempSum :: rat
  tempCount :: nat
  precipSum :: rat
  precipCount :: nat
  windSum :: rat
  windCount :: nat

record monthly_record = month_base +
  monthName :: string
  meanTemp :: jsval
  meanPrecip :: jsval
  meanWind :: jsval
  daysWithData :: nat

record api_result =
  daily :: "daily_record list"
  monthly :: "monthly_record list"
  hasData :: bool
  errorMessage :: "string option"

text \<open>\<^verbatim>\<open>const date = new Date(day.date)\<close> followed by the key of its month.\<close>

definition key_of :: "daily_record \<Rightarrow> month_key" where
  "key_of day = monthKey (date day)"

text \<open>\<^verbatim>\<open>data[param] && data[param].values && data[param].values[index] !== undefined\<close>,
  with the value when the test succeeds.\<close>

definition value_at :: "(string \<times> param_entry) list \<Rightarrow> string \<Rightarrow> nat \<Rightarrow> rat option" where
  "value_at dat param index =
     (case map_of dat param of
        None \<Rightarrow> None
      | Some e \<Rightarrow>
          (case values' e of
             None \<Rightarrow> None
           | Some vs \<Rightarrow> if index < length vs then Some (vs ! index) else None))"

text \<open>The body of \<^verbatim>\<open>available.forEach(param => ...)\<close>.\<close>

definition set_param ::
  "(string \<times> param_entry) list \<Rightarrow> nat \<Rightarrow> daily_record \<Rightarrow> string \<Rightarrow> daily_record" where
  "set_param dat index dailyObj param =
     (case value_at dat param index of
        Some v \<Rightarrow>
          (if param = ''WS2M'' then dailyObj\<lparr>wind := Num (v * 3.6)\<rparr>
           else if param = ''T2M'' then dailyObj\<lparr>temp := Num v\<rparr>
           else if param = ''PRECTOT'' then dailyObj\<lparr>precip := Num v\<rparr>
           else dailyObj)
      | None \<Rightarrow>
          (if param = ''WS2M'' then dailyObj\<lparr>wind := Null\<rparr>
           else if param = ''T2M'' then dailyObj\<lparr>temp := Null\<rparr>
           else if param = ''PRECTOT'' then dailyObj\<lparr>precip := Null\<rparr>
           else dailyObj))"

text \<open>The callback of \<^verbatim>\<open>dates.map((date, index) => ...)\<close>: the object starts as
  \<^verbatim>\<open>{ date }\<close>, with no weather property set.\<close>

definition make_daily ::
  "(string \<times> param_entry) list \<Rightarrow> string list \<Rightarrow> jsdate \<Rightarrow> nat \<Rightarrow> daily_record" where
  "make_daily dat avail d index =
     foldl (set_param dat index)
       \<lparr>date = d, temp = Undefined, precip = Undefined, wind = Undefined\<rparr> avail"

definition new_month :: "jsdate \<Rightarrow> month_acc" where
  "new_month d =
     \<lparr>month = monthKey d, year = getFullYear d,
      tempSum = 0, tempCount = 0, precipSum = 0, precipCount = 0,
      windSum = 0, windCount = 0\<rparr>"

definition add_temp :: "jsval \<Rightarrow> month_acc \<Rightarrow> month_acc" where
  "add_temp v m =
     (case v of Num r \<Rightarrow> m\<lparr>tempSum := tempSum m + r, tempCount := tempCount m + 1\<rparr> | _ \<Rightarrow> m)"

definition add_precip :: "jsval \<Rightarrow> month_acc \<Rightarrow> month_acc" where
  "add_precip v m =
     (case v of Num r \<Rightarrow> m\<lparr>precipSum := precipSum m + r, precipCount := precipCount m + 1\<rparr>
      | _ \<Rightarrow> m)"

definition add_wind :: "jsval \<Rightarrow> month_acc \<Rightarrow> month_acc" where
  "add_wind v m =
     (case v of Num r \<Rightarrow> m\<lparr>windSum := windSum m + r, windCount := windCount m + 1\<rparr> | _ \<Rightarrow> m)"

text \<open>A JavaScript object with string keys keeps them in insertion order: an association
  list in which a new key goes to the end and an old key is updated in place.\<close>

fun obj_modify :: "'k \<Rightarrow> 'v \<Rightarrow> ('v \<Rightarrow> 'v) \<Rightarrow> ('k \<times> 'v) list \<Rightarrow> ('k \<times> 'v) list" where
  "obj_modify k init f [] = [(k, f init)]"
| "obj_modify k init f ((k', v) # kvs) =
     (if k' = k then (k', f v) # kvs else (k', v) # obj_modify k init f kvs)"

text \<open>The body of \<^verbatim>\<open>result.daily.forEach(day => ...)\<close> on \<^verbatim>\<open>monthlyData\<close>.\<close>

definition add_day ::
  "(month_key \<times> month_acc) list \<Rightarrow> daily_record \<Rightarrow> (month_key \<times> month_acc) list" where
  "add_day monthlyData day =
     obj_modify (key_of day) (new_month (date day))
       (\<lambda>m. add_wind (wind day) (add_precip (precip day) (add_temp (temp day) m)))
       monthlyData"

text \<open>The callback of \<^verbatim>\<open>Object.values(monthlyData).map(m => ...)\<close>. The month number
  that \<^verbatim>\<open>parseInt(m.month.split('-')[1])\<close> reads back from the key is the second
  component of the pair (for a year that prints without a sign).\<close>

definition finish_month :: "month_acc \<Rightarrow> monthly_record" where
  "finish_month m =
     \<lparr>month = month m, year = year m,
      monthName = getMonthName (snd (month m)) (Some (year m)) True,
      meanTemp = (if tempCount m \<noteq> 0 then Num (tempSum m / of_nat (tempCount m)) else Null),
      meanPrecip =
        (if precipCount m \<noteq> 0 then Num (precipSum m / of_nat (precipCount m)) else Null),
      meanWind = (if windCount m \<noteq> 0 then Num (windSum m / of_nat (windCount m)) else Null),
      daysWithData = max (tempCount m) (max (precipCount m) (windCount m))\<rparr>"

definition month_cmp :: "monthly_record \<Rightarrow> monthly_record \<Rightarrow> int" where
  "month_cmp a b =
     (if year a \<noteq> year b then year a - year b else localeCompare (month a) (month b))"

text \<open>Lines 114 to 163: the monthly aggregates of the daily records.\<close>

definition aggregate :: "daily_record list \<Rightarrow> monthly_record list" where
  "aggregate ds = js_sort month_cmp (map (finish_month \<circ> snd) (foldl add_day [] ds))"

definition processApiData :: "api_data option \<Rightarrow> api_result" where
  "processApiData apiData =
     (case apiData of
        None \<Rightarrow>
          \<lparr>daily = [], monthly = [], hasData = False,
           errorMessage = Some ''No data available for the selected parameters and date range.''\<rparr>
      | Some a \<Rightarrow>
          (case data a of
             None \<Rightarrow>
               \<lparr>daily = [], monthly = [], hasData = False,
                errorMessage =
                  Some ''No data available for the selected parameters and date range.''\<rparr>
           | Some dat \<Rightarrow>
               (case (case map_of dat ''T2M'' of None \<Rightarrow> None | Some e \<Rightarrow> dates e) of
                  Some (d # ds) \<Rightarrow>
                    (let dys = map (\<lambda>(d', index). make_daily dat (available a) d' index)
                                 (zip (d # ds) [0 ..< length (d # ds)])
                     in \<lparr>daily = dys, monthly = aggregate dys, hasData = True,
                         errorMessage = None\<rparr>)
                | _ \<Rightarrow>
                    \<lparr>daily = [], monthly = [], hasData = False,
                     errorMessage =
                       Some ''No temperature data available for the selected date range.''\<rparr>)))"

section \<open>Display strings\<close>

text \<open>
  A displayed value is a literal string, or \<^verbatim>\<open>x.toFixed(k) + suffix\<close>, kept as the
  number, the digit count and the suffix: the decimal rounding of \<^verbatim>\<open>toFixed\<close> is not
  modelled.
\<close>

datatype display = Text string | Fixed rat nat string

text \<open>\<^verbatim>\<open>v.toFixed(k) + suffix\<close>. The receiver is a number at every call of the code below:
  each call is guarded by a test that only a number passes.\<close>

fun toFixed :: "jsval \<Rightarrow> nat \<Rightarrow> string \<Rightarrow> display" where
  "toFixed (Num r) k suffix = Fixed r k suffix"

text \<open>The unit written after a temperature, as the bytes of the source text.\<close>

definition degC :: string where
  "degC = [CHR 0xC3, CHR 0x82, CHR 0xC2, CHR 0xB0, CHR ''C'']"

text \<open>\<^verbatim>\<open>Math.max(...xs)\<close> and \<^verbatim>\<open>Math.min(...xs)\<close> of a non-empty list of numbers; every
  call below is guarded by a test that the list is not empty.\<close>

fun Math_max :: "rat list \<Rightarrow> rat" where
  "Math_max (x # xs) = fold max xs x"

fun Math_min :: "rat list \<Rightarrow> rat" where
  "Math_min (x # xs) = fold min xs x"

section \<open>The page's derived data\<close>

text \<open>\<^verbatim>\<open>forecastData\<close> is the state \<^verbatim>\<open>{ daily, monthly }\<close>; the result of
  \<open>processApiData\<close> is stored in it.\<close>

text \<open>Lines 876 to 878: the arrays handed to the daily charts.\<close>

definition temps :: "api_result \<Rightarrow> jsval list" where
  "temps forecastData = map (\<lambda>d. nullish0 (temp d)) (daily forecastData)"

definition precips :: "api_result \<Rightarrow> jsval list" where
  "precips forecastData = map (\<lambda>d. nullish0 (precip d)) (daily forecastData)"

definition winds :: "api_result \<Rightarrow> jsval list" where
  "winds forecastData = map (\<lambda>d. nullish0 (wind d)) (daily forecastData)"

subsection \<open>getHistoricalData\<close>

record historical_data =
  tempData :: "jsval list"
  precipData :: "jsval list"
  windData :: "jsval list"
  extremeEvents :: "nat list"
  monthLabels :: "string list"
  extremeLabels :: "string list"

text \<open>A \<^verbatim>\<open>Set\<close> built from a list: the distinct elements in order of first insertion.\<close>

definition js_Set :: "'a list \<Rightarrow> 'a list" where
  "js_Set xs = rev (remdups (rev xs))"

text \<open>\<^verbatim>\<open>m.set(k, v)\<close> on a \<^verbatim>\<open>Map\<close>, which keeps insertion order like an object.\<close>

definition map_set :: "'k \<Rightarrow> 'v \<Rightarrow> ('k \<times> 'v) list \<Rightarrow> ('k \<times> 'v) list" where
  "map_set k v kvs = obj_modify k v (\<lambda>_. v) kvs"

text \<open>
  The month keys in chart order. When \<^verbatim>\<open>forecastData.monthly\<close> is empty the keys of the
  daily records are collected in a \<^verbatim>\<open>Set\<close> and sorted as strings; on keys whose years
  have the same number of digits that is the order of the pairs.
\<close>

definition orderedMonths :: "api_result \<Rightarrow> month_key list" where
  "orderedMonths forecastData =
     (if monthly forecastData \<noteq> [] then map month (monthly forecastData)
      else sort (js_Set (map key_of (daily forecastData))))"

record agg_acc =
  tSum :: rat
  tN :: nat
  pSum :: rat
  pN :: nat
  wSum :: rat
  wN :: nat

definition agg_day :: "(month_key \<times> agg_acc) list \<Rightarrow> daily_record \<Rightarrow> (month_key \<times> agg_acc) list" where
  "agg_day agg day =
     obj_modify (key_of day) \<lparr>tSum = 0, tN = 0, pSum = 0, pN = 0, wSum = 0, wN = 0\<rparr>
       (\<lambda>a.
          let a1 = (case temp day of Num r \<Rightarrow> a\<lparr>tSum := tSum a + r, tN := tN a + 1\<rparr> | _ \<Rightarrow> a);
              a2 = (case precip day of Num r \<Rightarrow> a1\<lparr>pSum := pSum a1 + r, pN := pN a1 + 1\<rparr>
                    | _ \<Rightarrow> a1)
          in (case wind day of Num r \<Rightarrow> a2\<lparr>wSum := wSum a2 + r, wN := wN a2 + 1\<rparr> | _ \<Rightarrow> a2))
       agg"

definition tempMeanByMonth :: "api_result \<Rightarrow> (month_key \<times> jsval) list" where
  "tempMeanByMonth forecastData =
     (if monthly forecastData \<noteq> []
      then foldl (\<lambda>mp m. map_set (month m) (nullishNull (meanTemp m)) mp) []
             (monthly forecastData)
      else foldl (\<lambda>mp (key, a). map_set key (if tN a \<noteq> 0 then Num (tSum a / of_nat (tN a)) else Null) mp)
             [] (foldl agg_day [] (daily forecastData)))"

definition precipMeanByMonth :: "api_result \<Rightarrow> (month_key \<times> jsval) list" where
  "precipMeanByMonth forecastData =
     (if monthly forecastData \<noteq> []
      then foldl (\<lambda>mp m. map_set (month m) (nullishNull (meanPrecip m)) mp) []
             (monthly forecastData)
      else foldl (\<lambda>mp (key, a). map_set key (if pN a \<noteq> 0 then Num (pSum a / of_nat (pN a)) else Null) mp)
             [] (foldl agg_day [] (daily forecastData)))"

definition windMeanByMonth :: "api_result \<Rightarrow> (month_key \<times> jsval) list" where
  "windMeanByMonth forecastData =
     (if monthly forecastData \<noteq> []
      then foldl (\<lambda>mp m. map_set (month m) (nullishNull (meanWind m)) mp) []
             (monthly forecastData)
      else foldl (\<lambda>mp (key, a). map_set key (if wN a \<noteq> 0 then Num (wSum a / of_nat (wN a)) else Null) mp)
             [] (foldl agg_day [] (daily forecastData)))"

text \<open>Lines 945 to 948, and again 995 to 998: the increment of one day.\<close>

definition countInc :: "daily_record \<Rightarrow> nat" where
  "countInc day =
     (if precip day \<noteq> Undefined \<and> js_gt (precip day) 10 then 1 else 0) +
     (if temp day \<noteq> Undefined \<and> (js_gt (temp day) 30 \<or> js_lt (temp day) 5) then 1 else 0) +
     (if wind day \<noteq> Undefined \<and> js_gt (wind day) 20 then 1 else 0)"

text \<open>\<^verbatim>\<open>extremeByMonth.set(key, (extremeByMonth.get(key) || 0) + countInc)\<close>\<close>

definition extreme_day :: "(month_key \<times> nat) list \<Rightarrow> daily_record \<Rightarrow> (month_key \<times> nat) list" where
  "extreme_day extremeByMonth day =
     obj_modify (key_of day) 0 (\<lambda>c. c + countInc day) extremeByMonth"

definition extremeByMonth :: "daily_record list \<Rightarrow> (month_key \<times> nat) list" where
  "extremeByMonth ds = foldl extreme_day [] ds"

text \<open>\<^verbatim>\<open>m.has(key) && m.get(key) !== null ? m.get(key) : 0\<close>\<close>

definition mean_or_0 :: "(month_key \<times> jsval) list \<Rightarrow> month_key \<Rightarrow> jsval" where
  "mean_or_0 mp key =
     (case map_of mp key of None \<Rightarrow> Num 0 | Some v \<Rightarrow> if v \<noteq> Null then v else Num 0)"

definition defaultLabels :: "string list" where
  "defaultLabels =
     [''Jan'', ''Feb'', ''Mar'', ''Apr'', ''May'', ''Jun'',
      ''Jul'', ''Aug'', ''Sept'', ''Oct'', ''Nov'', ''Dec'']"

definition getHistoricalData :: "api_result \<Rightarrow> historical_data" where
  "getHistoricalData forecastData =
     (if daily forecastData = []
      then \<lparr>tempData = [], precipData = [], windData = [], extremeEvents = [],
            monthLabels = defaultLabels, extremeLabels = defaultLabels\<rparr>
      else
        let labels = map (\<lambda>(y, m). getMonthName m (Some y) True) (orderedMonths forecastData)
        in \<lparr>tempData = map (mean_or_0 (tempMeanByMonth forecastData)) (orderedMonths forecastData),
            precipData =
              map (mean_or_0 (precipMeanByMonth forecastData)) (orderedMonths forecastData),
            windData = map (mean_or_0 (windMeanByMonth forecastData)) (orderedMonths forecastData),
            extremeEvents =
              map (\<lambda>key. case map_of (extremeByMonth (daily forecastData)) key of
                            None \<Rightarrow> 0 | Some c \<Rightarrow> c)
                (orderedMonths forecastData),
            monthLabels = labels, extremeLabels = labels\<rparr>)"

subsection \<open>dataStatistics\<close>

record data_statistics =
  avgTemp :: display
  totalRainfall :: display
  avgWind :: display
  totalExtreme :: nat

definition dataStatistics :: "api_result \<Rightarrow> data_statistics" where
  "dataStatistics forecastData =
     (if daily forecastData = []
      then \<lparr>avgTemp = Text (''23.4'' @ degC), totalRainfall = Text ''847mm'',
            avgWind = Text ''N/A'', totalExtreme = 0\<rparr>
      else
        let ts = nums (map temp (daily forecastData));
            ps = nums (map precip (daily forecastData));
            windsArr = nums (map wind (daily forecastData))
        in \<lparr>avgTemp =
              (if length ts \<noteq> 0 then Fixed (foldl (+) 0 ts / of_nat (length ts)) 1 degC
               else Text ''N/A''),
            totalRainfall =
              (if length ps \<noteq> 0 then Fixed (foldl (+) 0 ps) 0 ''mm'' else Text ''0mm''),
            avgWind =
              (if length windsArr \<noteq> 0
               then Fixed (foldl (+) 0 windsArr / of_nat (length windsArr)) 1 '' km/h''
               else Text ''N/A''),
            totalExtreme = foldl (\<lambda>cnt d. cnt + countInc d) 0 (daily forecastData)\<rparr>)"

subsection \<open>WeatherInsights, lines 473 to 490\<close>

record insights =
  ins_avgTemp :: display
  ins_maxTemp :: display
  ins_minTemp :: display
  totalPrecip :: display
  maxPrecip :: display
  rainyDays :: nat
  ins_avgWind :: display
  maxWind :: display

text \<open>The component renders nothing (\<^verbatim>\<open>return null\<close>, here \<open>None\<close>) for an empty forecast.
  The insights are the constants of the same names (\<open>avgTemp\<close>, \<open>maxTemp\<close>, \<open>minTemp\<close>
  and \<open>avgWind\<close> carry the prefix \<open>ins\<close> here); the weather pattern derived from them after
  line 490 is not part of the model.\<close>

definition WeatherInsights :: "daily_record list \<Rightarrow> insights option" where
  "WeatherInsights forecast =
     (if forecast = [] then None
      else
        let ts = nums (map temp forecast);
            ps = nums (map precip forecast);
            ws = nums (map wind forecast)
        in Some
          \<lparr>ins_avgTemp =
             (if length ts \<noteq> 0 then Fixed (foldl (+) 0 ts / of_nat (length ts)) 1 []
              else Text ''N/A''),
           ins_maxTemp = (if length ts \<noteq> 0 then Fixed (Math_max ts) 1 [] else Text ''N/A''),
           ins_minTemp = (if length ts \<noteq> 0 then Fixed (Math_min ts) 1 [] else Text ''N/A''),
           totalPrecip = Fixed (foldl (+) 0 ps) 1 [],
           maxPrecip = (if length ps \<noteq> 0 then Fixed (Math_max ps) 1 [] else Text ''0''),
           rainyDays = length (filter (\<lambda>p. p > 0.5) ps),
           ins_avgWind =
             (if length ws \<noteq> 0 then Fixed (foldl (+) 0 ws / of_nat (length ws)) 1 []
              else Text ''N/A''),
           maxWind = (if length ws \<noteq> 0 then Fixed (Math_max ws) 1 [] else Text ''N/A'')\<rparr>)"

subsection \<open>recentExtremeEvents\<close>

record extreme_event = dated +
  type' :: string
  location :: string
  value' :: display

text \<open>The body of \<^verbatim>\<open>forecastData.daily.forEach(day => ...)\<close>: the events one day pushes, in
  the order it pushes them.\<close>

definition day_events :: "string \<Rightarrow> daily_record \<Rightarrow> extreme_event list" where
  "day_events loc day =
     (if temp day \<noteq> Undefined \<and> js_gt (temp day) 35
      then [\<lparr>date = date day, type' = ''Extreme Heat'', location = loc,
             value' = toFixed (temp day) 1 degC\<rparr>]
      else if temp day \<noteq> Undefined \<and> js_lt (temp day) 0
      then [\<lparr>date = date day, type' = ''Extreme Cold'', location = loc,
             value' = toFixed (temp day) 1 degC\<rparr>]
      else []) @
     (if precip day \<noteq> Undefined \<and> js_gt (precip day) 25
      then [\<lparr>date = date day, type' = ''Heavy Rain'', location = loc,
             value' = toFixed (precip day) 1 ''mm''\<rparr>]
      else []) @
     (if wind day \<noteq> Undefined \<and> js_gt (wind day) 20
      then [\<lparr>date = date day, type' = ''Strong Winds'', location = loc,
             value' = toFixed (wind day) 1 '' km/h''\<rparr>]
      else [])"

text \<open>\<^verbatim>\<open>(a, b) => new Date(b.date) - new Date(a.date)\<close>\<close>

definition date_desc :: "extreme_event \<Rightarrow> extreme_event \<Rightarrow> int" where
  "date_desc a b = getTime (date b) - getTime (date a)"

text \<open>The placeholder shown before any data is loaded is dated 2024-03-16.\<close>

definition placeholder_event :: extreme_event where
  "placeholder_event =
     \<lparr>date = \<lparr>getTime = 1710547200000, getFullYear = 2024, getMonth = 2\<rparr>,
      type' = ''Extreme Heat'', location = ''Phoenix, AZ'', value' = Text (''42'' @ degC)\<rparr>"

text \<open>\<open>cityName\<close> and \<open>stateName\<close> are \<^verbatim>\<open>selectedCity.name\<close> and
  \<^verbatim>\<open>selectedState.name\<close>.\<close>

definition recentExtremeEvents :: "api_result \<Rightarrow> string \<Rightarrow> string \<Rightarrow> extreme_event list" where
  "recentExtremeEvents forecastData cityName stateName =
     (if daily forecastData = [] then [placeholder_event]
      else js_sort date_desc
             (concat (map (day_events (cityName @ '', '' @ stateName)) (daily forecastData))))"

section \<open>LineChart\<close>

text \<open>\<^verbatim>\<open>xs.indexOf(v)\<close>: the first index holding \<open>v\<close>, or \<open>-1\<close>.\<close>

fun indexOf :: "'a list \<Rightarrow> 'a \<Rightarrow> int" where
  "indexOf [] v = - 1"
| "indexOf (x # xs) v =
     (if x = v then 0 else (let i = indexOf xs v in if i < 0 then - 1 else i + 1))"

text \<open>\<^verbatim>\<open>data[i]\<close> for an integer \<open>i\<close>: outside the array it reads \<^verbatim>\<open>undefined\<close>.\<close>

definition data_at :: "jsval list \<Rightarrow> int \<Rightarrow> jsval" where
  "data_at dat i = (if 0 \<le> i \<and> i < int (length dat) then dat ! nat i else Undefined)"

definition isLargeDataset :: "jsval list \<Rightarrow> bool" where
  "isLargeDataset dat = (length dat > 100)"

definition chart_width :: "bool \<Rightarrow> jsval list \<Rightarrow> rat" where
  "chart_width compact' dat = (if compact' then 300 else max 300 (of_nat (length dat) * 60))"

text \<open>\<^verbatim>\<open>Math.max(1, Math.floor(data.length / 50))\<close>\<close>

definition sampleRate :: "int \<Rightarrow> int" where
  "sampleRate n = max 1 (n div 50)"

text \<open>The loop \<^verbatim>\<open>for (let i = 0; i < data.length; i += sampleRate)\<close>, from index \<open>i\<close> on;
  \<open>n\<close> is \<^verbatim>\<open>data.length\<close>.\<close>

function sampledIndices :: "int \<Rightarrow> int \<Rightarrow> int list \<Rightarrow> int list" where
  "sampledIndices i n importantIndices =
     (if i < n
      then (if i \<notin> set importantIndices then [i] else []) @
           sampledIndices (i + sampleRate n) n importantIndices
      else [])"
  by pat_completeness auto
termination
  by (relation "measure (\<lambda>(i, n, imp). nat (n - i))") (auto simp: sampleRate_def)

declare sampledIndices.simps [simp del]

text \<open>Lines 194 to 217.\<close>

definition pointIndices :: "bool \<Rightarrow> jsval list \<Rightarrow> int list" where
  "pointIndices compact' dat =
     (if compact' \<and> isLargeDataset dat
      then
        let validData = nums dat;
            maxIndex = indexOf dat (Num (Math_max validData));
            minIndex = indexOf dat (Num (Math_min validData));
            importantIndices = js_Set [0, int (length dat) - 1, maxIndex, minIndex]
        in js_sort (\<lambda>a b. a - b)
             (importantIndices @ sampledIndices 0 (int (length dat)) importantIndices)
      else map int [0 ..< length dat])"

text \<open>The horizontal coordinate of line 227 for the data index \<open>dataIndex\<close>;
  \<^verbatim>\<open>totalPoints || 1\<close> replaces 0 by 1.\<close>

definition x_coord :: "bool \<Rightarrow> jsval list \<Rightarrow> int \<Rightarrow> rat" where
  "x_coord compact' dat dataIndex =
     (let i = (if compact' \<and> isLargeDataset dat
               then indexOf (pointIndices compact' dat) dataIndex else dataIndex);
          totalPoints = (if compact' \<and> isLargeDataset dat
                         then int (length (pointIndices compact' dat)) - 1
                         else int (length dat) - 1)
      in (of_int i / of_int (if totalPoints = 0 then 1 else totalPoints)) *
           (chart_width compact' dat - 24) + 12)"

definition y_coord :: "rat \<Rightarrow> jsval list \<Rightarrow> rat \<Rightarrow> rat" where
  "y_coord height dat v =
     (let validData = nums dat;
          mx = Math_max validData;
          mn = Math_min validData;
          range = max 1 (mx - mn)
      in height - 30 - ((v - mn) / range) * (height - 42))"

text \<open>The callback of \<^verbatim>\<open>pointIndices.map((dataIndex) => ...)\<close> of line 220; \<open>None\<close> is the
  \<^verbatim>\<open>null\<close> it returns for a missing value.\<close>

definition point_of :: "bool \<Rightarrow> rat \<Rightarrow> jsval list \<Rightarrow> int \<Rightarrow> (rat \<times> rat) option" where
  "point_of compact' height dat dataIndex =
     (case data_at dat dataIndex of
        Num v \<Rightarrow> Some (x_coord compact' dat dataIndex, y_coord height dat v)
      | _ \<Rightarrow> None)"

datatype chart = NoData | NoValidData | Chart "int list" "(rat \<times> rat) list"

text \<open>The chart up to line 232: the early returns, the indices kept, and the points of the
  polyline before they are joined into a string.\<close>

definition LineChart :: "jsval list \<Rightarrow> rat \<Rightarrow> bool \<Rightarrow> chart" where
  "LineChart dat height compact' =
     (if dat = [] then NoData
      else if nums dat = [] then NoValidData
      else Chart (pointIndices compact' dat)
             (List.map_filter (point_of compact' height dat) (pointIndices compact' dat)))"

section \<open>Definitions used to state the properties\<close>

text \<open>The accumulator that a group \<open>g\<close> of daily records with key \<open>k\<close> adds up to.\<close>

definition group_acc :: "month_key \<Rightarrow> daily_record list \<Rightarrow> month_acc" where
  "group_acc k g =
     \<lparr>month = k, year = fst k,
      tempSum = sum_list (nums (map temp g)), tempCount = length (nums (map temp g)),
      precipSum = sum_list (nums (map precip g)), precipCount = length (nums (map precip g)),
      windSum = sum_list (nums (map wind g)), windCount = length (nums (map wind g))\<rparr>"

text \<open>The daily records of the month with key \<open>k\<close>.\<close>

definition days_of :: "month_key \<Rightarrow> daily_record list \<Rightarrow> daily_record list" where
  "days_of k ds = filter (\<lambda>d. key_of d = k) ds"

text \<open>The mean as the specification words it: the sum of the present values divided by
  their count, and absent when there is none.\<close>

definition spec_mean :: "rat list \<Rightarrow> jsval" where
  "spec_mean vs = (if length vs = 0 then Null else Num (sum_list vs / of_nat (length vs)))"

text \<open>The two days of the specification's end-to-end scenario, and a day of the following
  month whose temperature is \<^verbatim>\<open>null\<close> and whose wind is not set.\<close>

definition day_jan01 :: daily_record where
  "day_jan01 =
     \<lparr>date = \<lparr>getTime = 1704067200000, getFullYear = 2024, getMonth = 0\<rparr>,
      temp = Num 36, precip = Num 0, wind = Num 5\<rparr>"

definition day_jan15 :: daily_record where
  "day_jan15 =
     \<lparr>date = \<lparr>getTime = 1705276800000, getFullYear = 2024, getMonth = 0\<rparr>,
      temp = Num (- 2), precip = Num 30, wind = Num 25\<rparr>"

definition day_feb01 :: daily_record where
  "day_feb01 =
     \<lparr>date = \<lparr>getTime = 1706745600000, getFullYear = 2024, getMonth = 1\<rparr>,
      temp = Null, precip = Num 3, wind = Undefined\<rparr>"

text \<open>A value is present and above, or below, a threshold.\<close>

definition above :: "jsval \<Rightarrow> rat \<Rightarrow> bool" where
  "above v c = (case v of Num r \<Rightarrow> r > c | _ \<Rightarrow> False)"

definition below :: "jsval \<Rightarrow> rat \<Rightarrow> bool" where
  "below v c = (case v of Num r \<Rightarrow> r < c | _ \<Rightarrow> False)"

text \<open>The number of the monthly chart's conditions that a day triggers, and whether it
  triggers any.\<close>

definition spec_conditions :: "daily_record \<Rightarrow> nat" where
  "spec_conditions d =
     (if above (precip d) 10 then 1 else 0) +
     (if above (temp d) 30 \<or> below (temp d) 5 then 1 else 0) +
     (if above (wind d) 20 then 1 else 0)"

definition spec_extreme_day :: "daily_record \<Rightarrow> bool" where
  "spec_extreme_day d =
     (above (precip d) 10 \<or> above (temp d) 30 \<or> below (temp d) 5 \<or> above (wind d) 20)"

text \<open>What \<open>processApiData\<close> stores for the daily records \<open>ds\<close> when there is at least one.\<close>

definition processed :: "daily_record list \<Rightarrow> api_result" where
  "processed ds = \<lparr>daily = ds, monthly = aggregate ds, hasData = True, errorMessage = None\<rparr>"

text \<open>The state after the scenario's two days are loaded.\<close>

definition scenario :: api_result where
  "scenario = processed [day_jan01, day_jan15]"

text \<open>The state before any data is loaded: \<^verbatim>\<open>useState({ daily: [], monthly: [] })\<close>.\<close>

definition no_data :: api_result where
  "no_data = \<lparr>daily = [], monthly = [], hasData = False, errorMessage = None\<rparr>"

text \<open>The specification's detector: one event for each rule of its table that a day
  triggers.\<close>

definition spec_events :: "string \<Rightarrow> daily_record \<Rightarrow> extreme_event list" where
  "spec_events loc d =
     (case temp d of
        Num t \<Rightarrow>
          (if t > 35
           then [\<lparr>date = date d, type' = ''Extreme Heat'', location = loc,
                  value' = Fixed t 1 degC\<rparr>]
           else []) @
          (if t < 0
           then [\<lparr>date = date d, type' = ''Extreme Cold'', location = loc,
                  value' = Fixed t 1 degC\<rparr>]
           else [])
      | _ \<Rightarrow> []) @
     (case precip d of
        Num p \<Rightarrow>
          (if p > 25
           then [\<lparr>date = date d, type' = ''Heavy Rain'', location = loc,
                  value' = Fixed p 1 ''mm''\<rparr>]
           else [])
      | _ \<Rightarrow> []) @
     (case wind d of
        Num w \<Rightarrow>
          (if w > 20
           then [\<lparr>date = date d, type' = ''Strong Winds'', location = loc,
                  value' = Fixed w 1 '' km/h''\<rparr>]
           else [])
      | _ \<Rightarrow> [])"

text \<open>A day with temperature 36, precipitation 30 and wind 25.\<close>

definition day_hot_wet_windy :: daily_record where
  "day_hot_wet_windy =
     \<lparr>date = \<lparr>getTime = 1717200000000, getFullYear = 2024, getMonth = 5\<rparr>,
      temp = Num 36, precip = Num 30, wind = Num 25\<rparr>"

text \<open>The specification's summary of a series: absent entries are filtered out before the
  mean, the minimum and the maximum, which are absent when nothing is left; the total is
  the sum of the present entries.\<close>

record summary =
  mean :: "rat option"
  minimum :: "rat option"
  maximum :: "rat option"
  total :: rat
  presentCount :: nat

definition summarize :: "jsval list \<Rightarrow> summary" where
  "summarize vs =
     \<lparr>mean = (if nums vs = [] then None else Some (sum_list (nums vs) / of_nat (length (nums vs)))),
      minimum = (if nums vs = [] then None else Some (Min (set (nums vs)))),
      maximum = (if nums vs = [] then None else Some (Max (set (nums vs)))),
      total = sum_list (nums vs),
      presentCount = length (nums vs)\<rparr>"

text \<open>How a statistic is shown: \<open>absent\<close> stands for an absent one.\<close>

definition shown :: "display \<Rightarrow> rat option \<Rightarrow> nat \<Rightarrow> string \<Rightarrow> display" where
  "shown absent x k suffix = (case x of None \<Rightarrow> absent | Some r \<Rightarrow> Fixed r k suffix)"

text \<open>Three days whose temperatures and precipitations are 5, absent and 15.\<close>

definition three_days :: "daily_record list" where
  "three_days =
     [\<lparr>date = \<lparr>getTime = 1704067200000, getFullYear = 2024, getMonth = 0\<rparr>,
       temp = Num 5, precip = Num 5, wind = Undefined\<rparr>,
      \<lparr>date = \<lparr>getTime = 1704153600000, getFullYear = 2024, getMonth = 0\<rparr>,
       temp = Null, precip = Undefined, wind = Null\<rparr>,
      \<lparr>date = \<lparr>getTime = 1704240000000, getFullYear = 2024, getMonth = 0\<rparr>,
       temp = Num 15, precip = Num 15, wind = Undefined\<rparr>]"

text \<open>The field that a recognised code sets at day \<open>index\<close>: not set when the code is not
  listed as available, \<^verbatim>\<open>null\<close> when it is listed and has no value there, and else its
  value times \<open>factor\<close>.\<close>

definition field_value ::
  "(string \<times> param_entry) list \<Rightarrow> string list \<Rightarrow> string \<Rightarrow> nat \<Rightarrow> rat \<Rightarrow> jsval" where
  "field_value dat avail param index factor =
     (if param \<notin> set avail then Undefined
      else case value_at dat param index of None \<Rightarrow> Null | Some v \<Rightarrow> Num (v * factor))"

text \<open>A payload of two days that delivers precipitation under \<^verbatim>\<open>PRECTOTCORR\<close> and one
  temperature only.\<close>

definition two_dates :: "jsdate list" where
  "two_dates =
     [\<lparr>getTime = 1704067200000, getFullYear = 2024, getMonth = 0\<rparr>,
      \<lparr>getTime = 1705276800000, getFullYear = 2024, getMonth = 0\<rparr>]"

definition payload_data :: "(string \<times> param_entry) list" where
  "payload_data =
     [(''T2M'', \<lparr>dates = Some two_dates, values' = Some [36]\<rparr>),
      (''PRECTOTCORR'', \<lparr>dates = Some two_dates, values' = Some [0, 30]\<rparr>),
      (''WS2M'', \<lparr>dates = Some two_dates, values' = Some [5, 7]\<rparr>)]"

definition payload_corr :: api_data where
  "payload_corr =
     \<lparr>data = Some payload_data, available = [''T2M'', ''PRECTOTCORR'', ''WS2M'']\<rparr>"

text \<open>The indices the specification retains of a long series: the first, the last, those of
  the largest and the smallest present value, and every Nth.\<close>

definition spec_retained :: "jsval list \<Rightarrow> int set" where
  "spec_retained dat =
     {0, int (length dat) - 1, indexOf dat (Num (Max (set (nums dat)))),
      indexOf dat (Num (Min (set (nums dat))))} \<union>
     {j. 0 \<le> j \<and> j < int (length dat) \<and> j mod max 1 (int (length dat) div 50) = 0}"

text \<open>A series of 200 values whose largest value is at index 120 and whose smallest is at
  index 122, after a missing one.\<close>

definition series_200 :: "jsval list" where
  "series_200 = replicate 120 (Num 1) @ [Num 7, Null, Num (- 3)] @ replicate 77 (Num 1)"

section \<open>Evaluation\<close>

text \<open>The defining equations that evaluate the model on a concrete input.\<close>

lemmas model_defs =
  js_gt_def js_lt_def js_sort_def monthKey_def localeCompare_def name_at_def shortMonthNames_def
  monthNames_def digits.simps toString_def slice2_def getMonthName_def key_of_def value_at_def set_param_def
  make_daily_def new_month_def add_temp_def add_precip_def add_wind_def add_day_def
  finish_month_def month_cmp_def aggregate_def processApiData_def degC_def temps_def precips_def
  winds_def js_Set_def map_set_def orderedMonths_def agg_day_def tempMeanByMonth_def
  precipMeanByMonth_def windMeanByMonth_def countInc_def extreme_day_def extremeByMonth_def
  mean_or_0_def defaultLabels_def getHistoricalData_def dataStatistics_def WeatherInsights_def
  day_events_def date_desc_def placeholder_event_def recentExtremeEvents_def data_at_def
  isLargeDataset_def chart_width_def sampleRate_def pointIndices_def x_coord_def y_coord_def
  point_of_def LineChart_def Let_def

lemmas example_defs =
  day_jan01_def day_jan15_def day_feb01_def processed_def scenario_def days_of_def
  spec_mean_def above_def below_def spec_conditions_def spec_extreme_day_def
  no_data_def spec_events_def day_hot_wet_windy_def summarize_def shown_def three_days_def

section \<open>Sorting\<close>

lemma insert_cmp_insort_key:
  assumes "\<And>y. y \<in> set ys \<Longrightarrow> (cmp x y \<le> 0) = (k x \<le> k y)"
  shows "insert_cmp cmp x ys = insort_key k x ys"
  using assms by (induction ys) auto

lemma js_sort_sort_key:
  fixes k :: "'a \<Rightarrow> 'b::linorder"
  assumes "\<And>x y. x \<in> set xs \<Longrightarrow> y \<in> set xs \<Longrightarrow> (cmp x y \<le> 0) = (k x \<le> k y)"
  shows "js_sort cmp xs = sort_key k xs"
  using assms
proof (induction xs)
  case Nil
  then show ?case by (simp add: js_sort_def)
next
  case (Cons x xs)
  have ih: "js_sort cmp xs = sort_key k xs"
    using Cons by simp
  have "insert_cmp cmp x (sort_key k xs) = insort_key k x (sort_key k xs)"
    by (rule insert_cmp_insort_key) (simp add: Cons.prems)
  with ih show ?case
    by (simp add: js_sort_def sort_key_def)
qed

section \<open>Objects as association lists\<close>

lemma obj_modify_map_of:
  "map_of (obj_modify k init f kvs) =
     (map_of kvs)(k \<mapsto> f (case map_of kvs k of None \<Rightarrow> init | Some v \<Rightarrow> v))"
  by (induction kvs) (auto simp: fun_eq_iff)

lemma obj_modify_keys:
  "map fst (obj_modify k init f kvs) =
     (if k \<in> fst ` set kvs then map fst kvs else map fst kvs @ [k])"
  by (induction kvs) (auto simp: rev_image_eqI)

lemma obj_modify_distinct:
  "distinct (map fst kvs) \<Longrightarrow> distinct (map fst (obj_modify k init f kvs))"
  by (simp add: obj_modify_keys)

section \<open>The monthly accumulators\<close>

lemma nums_append: "nums (xs @ ys) = nums xs @ nums ys"
  by (induction xs rule: nums.induct) auto

lemma group_acc_snoc:
  "add_wind (wind d) (add_precip (precip d) (add_temp (temp d) (group_acc k g))) =
     group_acc k (g @ [d])"
  by (cases "temp d"; cases "precip d"; cases "wind d")
     (simp_all add: group_acc_def add_wind_def add_precip_def add_temp_def nums_append)

lemma new_month_group: "new_month (date d) = group_acc (key_of d) []"
  by (simp add: new_month_def group_acc_def key_of_def monthKey_def)

lemma monthlyData_map_of:
  "map_of (foldl add_day [] ds) k =
     (if days_of k ds = [] then None else Some (group_acc k (days_of k ds)))"
proof (induction ds rule: rev_induct)
  case Nil
  then show ?case by (simp add: days_of_def)
next
  case (snoc d ds)
  show ?case
  proof (cases "key_of d = k")
    case True
    then show ?thesis
      using snoc
      by (simp add: add_day_def obj_modify_map_of new_month_group group_acc_snoc days_of_def)
  next
    case False
    then show ?thesis
      using snoc by (simp add: add_day_def obj_modify_map_of days_of_def)
  qed
qed

lemma monthlyData_distinct: "distinct (map fst (foldl add_day [] ds))"
  by (induction ds rule: rev_induct) (simp_all add: add_day_def obj_modify_distinct)

lemma monthlyData_keys: "fst ` set (foldl add_day [] ds) = key_of ` set ds"
proof -
  have "fst ` set (foldl add_day [] ds) = dom (map_of (foldl add_day [] ds))"
    by (simp add: dom_map_of_conv_image_fst)
  also have "\<dots> = key_of ` set ds"
    by (force simp: dom_def monthlyData_map_of days_of_def filter_empty_conv)
  finally show ?thesis .
qed

lemma monthlyData_entry:
  assumes "(k, m) \<in> set (foldl add_day [] ds)"
  shows "m = group_acc k (days_of k ds) \<and> days_of k ds \<noteq> []"
proof -
  have "map_of (foldl add_day [] ds) k = Some m"
    using assms monthlyData_distinct by (simp add: map_of_eq_Some_iff)
  then show ?thesis
    by (simp add: monthlyData_map_of split: if_splits)
qed

section \<open>Temperature gates the output of processApiData\<close>

text \<open>
  C10. When the payload has no \<^verbatim>\<open>T2M\<close> entry, or the entry has no \<^verbatim>\<open>dates\<close> array or an
  empty one, \<open>processApiData\<close> returns no daily and no monthly record, \<open>hasData\<close> false
  and the message about missing temperature data, whatever the payload holds for
  precipitation and wind and whatever it lists as available.
\<close>

theorem processApiData_no_temperature:
  assumes "data a = Some dat"
    and "map_of dat ''T2M'' = None \<or>
         (\<exists>e. map_of dat ''T2M'' = Some e \<and> (dates e = None \<or> dates e = Some []))"
  shows "processApiData (Some a) =
     \<lparr>daily = [], monthly = [], hasData = False,
      errorMessage = Some ''No temperature data available for the selected date range.''\<rparr>"
  using assms by (auto simp: processApiData_def)

theorem processApiData_no_temperature_witness:
  "processApiData
     (Some \<lparr>data = Some
              [(''PRECTOT'',
                \<lparr>dates = Some [\<lparr>getTime = 1704067200000, getFullYear = 2024, getMonth = 0\<rparr>],
                 values' = Some [30]\<rparr>),
               (''WS2M'',
                \<lparr>dates = Some [\<lparr>getTime = 1704067200000, getFullYear = 2024, getMonth = 0\<rparr>],
                 values' = Some [7]\<rparr>),
               (''T2M'', \<lparr>dates = Some [], values' = Some []\<rparr>)],
            available = [''PRECTOT'', ''WS2M'', ''T2M'']\<rparr>) =
     \<lparr>daily = [], monthly = [], hasData = False,
      errorMessage = Some ''No temperature data available for the selected date range.''\<rparr>"
  using processApiData_no_temperature
    [of "\<lparr>data = Some
              [(''PRECTOT'',
                \<lparr>dates = Some [\<lparr>getTime = 1704067200000, getFullYear = 2024, getMonth = 0\<rparr>],
                 values' = Some [30]\<rparr>),
               (''WS2M'',
                \<lparr>dates = Some [\<lparr>getTime = 1704067200000, getFullYear = 2024, getMonth = 0\<rparr>],
                 values' = Some [7]\<rparr>),
               (''T2M'', \<lparr>dates = Some [], values' = Some []\<rparr>)],
            available = [''PRECTOT'', ''WS2M'', ''T2M'']\<rparr>"
        "[(''PRECTOT'',
                \<lparr>dates = Some [\<lparr>getTime = 1704067200000, getFullYear = 2024, getMonth = 0\<rparr>],
                 values' = Some [30]\<rparr>),
               (''WS2M'',
                \<lparr>dates = Some [\<lparr>getTime = 1704067200000, getFullYear = 2024, getMonth = 0\<rparr>],
                 values' = Some [7]\<rparr>),
               (''T2M'', \<lparr>dates = Some [], values' = Some []\<rparr>)]"]
  by simp

section \<open>The monthly aggregates\<close>

lemma finish_month_group:
  "finish_month (group_acc k g) =
     \<lparr>month = k, year = fst k,
      monthName = getMonthName (snd k) (Some (fst k)) True,
      meanTemp = spec_mean (nums (map temp g)),
      meanPrecip = spec_mean (nums (map precip g)),
      meanWind = spec_mean (nums (map wind g)),
      daysWithData = max (length (nums (map temp g)))
         (max (length (nums (map precip g))) (length (nums (map wind g))))\<rparr>"
  by (simp add: finish_month_def group_acc_def spec_mean_def)

lemma aggregate_unsorted_entry:
  assumes "x \<in> set (map (finish_month \<circ> snd) (foldl add_day [] ds))"
  shows "x = finish_month (group_acc (month x) (days_of (month x) ds)) \<and>
         days_of (month x) ds \<noteq> []"
proof -
  from assms obtain k m where km: "(k, m) \<in> set (foldl add_day [] ds)" and x: "x = finish_month m"
    by auto
  from monthlyData_entry[OF km] have m: "m = group_acc k (days_of k ds)" and ne: "days_of k ds \<noteq> []"
    by simp_all
  have "month x = k"
    using x m by (simp add: finish_month_group)
  with x m ne show ?thesis by simp
qed

lemma month_cmp_le:
  assumes "year a = fst (month a)" and "year b = fst (month b)"
  shows "(month_cmp a b \<le> 0) = (month a \<le> month b)"
  using assms
  by (cases "month a"; cases "month b")
     (auto simp: month_cmp_def localeCompare_def less_eq_prod_def less_prod_def)

lemma aggregate_sort_key:
  "aggregate ds = sort_key month (map (finish_month \<circ> snd) (foldl add_day [] ds))"
  unfolding aggregate_def
proof (rule js_sort_sort_key)
  fix x y
  assume x: "x \<in> set (map (finish_month \<circ> snd) (foldl add_day [] ds))"
    and y: "y \<in> set (map (finish_month \<circ> snd) (foldl add_day [] ds))"
  have "year x = fst (month x)"
    using aggregate_unsorted_entry[OF x] by (metis finish_month_group month_base.select_convs(1,2))
  moreover have "year y = fst (month y)"
    using aggregate_unsorted_entry[OF y] by (metis finish_month_group month_base.select_convs(1,2))
  ultimately show "(month_cmp x y \<le> 0) = (month x \<le> month y)"
    by (rule month_cmp_le)
qed

lemma aggregate_entry:
  assumes "m \<in> set (aggregate ds)"
  shows "m = finish_month (group_acc (month m) (days_of (month m) ds)) \<and>
         days_of (month m) ds \<noteq> []"
  using assms aggregate_unsorted_entry[of m ds] by (simp add: aggregate_sort_key)

lemma map_month_unsorted:
  "map month (map (finish_month \<circ> snd) (foldl add_day [] ds)) = map fst (foldl add_day [] ds)"
proof -
  have "\<And>p. p \<in> set (foldl add_day [] ds) \<Longrightarrow> month (finish_month (snd p)) = fst p"
  proof -
    fix p assume "p \<in> set (foldl add_day [] ds)"
    then have "(fst p, snd p) \<in> set (foldl add_day [] ds)" by simp
    from monthlyData_entry[OF this] show "month (finish_month (snd p)) = fst p"
      by (metis finish_month_group month_base.select_convs(1))
  qed
  then show ?thesis by simp
qed

lemma distinct_map_sort_key:
  "distinct (map f (sort_key f xs)) = distinct (map f xs)"
  by (induction xs) (simp_all add: distinct_insort_key)

lemma aggregate_months_distinct: "distinct (map month (aggregate ds))"
  by (simp add: aggregate_sort_key distinct_map_sort_key map_month_unsorted monthlyData_distinct
      del: map_map)

lemma aggregate_months_set: "month ` set (aggregate ds) = key_of ` set ds"
proof -
  have "month ` set (aggregate ds) =
      set (map month (map (finish_month \<circ> snd) (foldl add_day [] ds)))"
    by (simp only: aggregate_sort_key set_sort set_map)
  also have "\<dots> = key_of ` set ds"
    by (simp only: map_month_unsorted set_map monthlyData_keys)
  finally show ?thesis .
qed

lemma aggregate_strict: "sorted_wrt (<) (map month (aggregate ds))"
  by (simp add: strict_sorted_iff aggregate_months_distinct) (simp add: aggregate_sort_key)

lemma aggregate_year: "m \<in> set (aggregate ds) \<Longrightarrow> year m = fst (month m)"
  using aggregate_entry[of m ds] by (metis finish_month_group month_base.select_convs(1,2))

lemma aggregate_Nil: "aggregate [] = []"
  by (simp add: aggregate_def js_sort_def)

text \<open>
  C6. The monthly array has one entry for each distinct pair of year and month among the
  dates of the daily records, its entries are strictly ascending by year and then by
  month, and for no daily record it is the empty array.
\<close>

theorem aggregate_length_order:
  "length (aggregate ds) = card ((\<lambda>d. (getFullYear (date d), getMonth (date d))) ` set ds) \<and>
   sorted_wrt (\<lambda>a b. year a < year b \<or> (year a = year b \<and> snd (month a) < snd (month b)))
     (aggregate ds) \<and>
   aggregate [] = []"
proof -
  have "length (aggregate ds) = length (map month (aggregate ds))" by simp
  also have "\<dots> = card (set (map month (aggregate ds)))"
    using aggregate_months_distinct by (simp only: distinct_card)
  also have "\<dots> = card (key_of ` set ds)"
    by (simp only: set_map aggregate_months_set)
  also have "\<dots> = card ((\<lambda>p. (fst p, snd p - 1)) ` key_of ` set ds)"
    by (rule card_image[symmetric]) (auto simp: inj_on_def key_of_def monthKey_def)
  also have "(\<lambda>p. (fst p, snd p - 1)) ` key_of ` set ds =
      (\<lambda>d. (getFullYear (date d), getMonth (date d))) ` set ds"
    by (simp add: image_image key_of_def monthKey_def)
  finally have len: "length (aggregate ds) =
      card ((\<lambda>d. (getFullYear (date d), getMonth (date d))) ` set ds)" .
  have "sorted_wrt (\<lambda>a b. month a < month b) (aggregate ds)"
    using aggregate_strict[of ds] by (simp add: sorted_wrt_map)
  then have "sorted_wrt
      (\<lambda>a b. year a < year b \<or> (year a = year b \<and> snd (month a) < snd (month b)))
      (aggregate ds)"
  proof (rule sorted_wrt_mono_rel[rotated])
    fix a b
    assume "a \<in> set (aggregate ds)" "b \<in> set (aggregate ds)" "month a < month b"
    then show "year a < year b \<or> (year a = year b \<and> snd (month a) < snd (month b))"
      using aggregate_year[of a ds] aggregate_year[of b ds]
      by (cases "month a"; cases "month b") (auto simp: less_prod_def)
  qed
  then show ?thesis using len aggregate_Nil by simp
qed

text \<open>
  C3. Every entry of the monthly array holds, for temperature, precipitation and wind
  each on its own, the sum of the present values of the month's daily records divided by
  their count, and \<^verbatim>\<open>null\<close> when the month has no present value; every daily record's
  month has an entry.
\<close>

theorem aggregate_means:
  "(\<forall>m\<in>set (aggregate ds).
      meanTemp m = spec_mean (nums (map temp (days_of (month m) ds))) \<and>
      meanPrecip m = spec_mean (nums (map precip (days_of (month m) ds))) \<and>
      meanWind m = spec_mean (nums (map wind (days_of (month m) ds)))) \<and>
   (\<forall>m\<in>set (aggregate ds).
      nums (map temp (days_of (month m) ds)) = [] \<longrightarrow> meanTemp m = Null) \<and>
   (\<forall>d\<in>set ds. \<exists>m\<in>set (aggregate ds). month m = key_of d)"
proof -
  have means: "meanTemp m = spec_mean (nums (map temp (days_of (month m) ds))) \<and>
      meanPrecip m = spec_mean (nums (map precip (days_of (month m) ds))) \<and>
      meanWind m = spec_mean (nums (map wind (days_of (month m) ds)))"
    if "m \<in> set (aggregate ds)" for m
  proof -
    from aggregate_entry[OF that]
    have "m = finish_month (group_acc (month m) (days_of (month m) ds))" by simp
    then show ?thesis
      by (metis finish_month_group monthly_record.select_convs(2,3,4))
  qed
  have "\<exists>m\<in>set (aggregate ds). month m = key_of d" if "d \<in> set ds" for d
  proof -
    from that have "key_of d \<in> month ` set (aggregate ds)"
      by (simp add: aggregate_months_set)
    then show ?thesis by force
  qed
  with means show ?thesis
    by (simp add: spec_mean_def)
qed

theorem aggregate_means_witness:
  "\<lparr>month = (2024, 2), year = 2024, monthName = ''Feb 24'', meanTemp = Null,
     meanPrecip = Num 3, meanWind = Null, daysWithData = 1\<rparr>
     \<in> set (aggregate [day_feb01, day_jan01, day_jan15]) \<and>
   nums (map temp (days_of (2024, 2) [day_feb01, day_jan01, day_jan15])) = [] \<and>
   \<lparr>month = (2024, 1), year = 2024, monthName = ''Jan 24'', meanTemp = Num 17,
     meanPrecip = Num 15, meanWind = Num 15, daysWithData = 2\<rparr>
     \<in> set (aggregate [day_feb01, day_jan01, day_jan15]) \<and>
   spec_mean (nums (map temp (days_of (2024, 1) [day_feb01, day_jan01, day_jan15]))) = Num 17"
proof -
  have agg: "aggregate [day_feb01, day_jan01, day_jan15] =
      [\<lparr>month = (2024, 1), year = 2024, monthName = ''Jan 24'', meanTemp = Num 17,
        meanPrecip = Num 15, meanWind = Num 15, daysWithData = 2\<rparr>,
       \<lparr>month = (2024, 2), year = 2024, monthName = ''Feb 24'', meanTemp = Null,
        meanPrecip = Num 3, meanWind = Null, daysWithData = 1\<rparr>]"
    by (simp add: model_defs example_defs)
  have feb: "nums (map temp (days_of (2024, 2) [day_feb01, day_jan01, day_jan15])) = []"
    by (simp add: model_defs example_defs)
  show ?thesis
    using aggregate_means [of "[day_feb01, day_jan01, day_jan15]"] feb
    by (simp add: agg)
qed

section \<open>The extreme-event count of a month\<close>

lemma gt_above: "0 \<le> c \<Longrightarrow> (v \<noteq> Undefined \<and> js_gt v c) = above v c"
  by (cases v) (auto simp: js_gt_def above_def)

lemma lt_below_num: "v \<noteq> Null \<Longrightarrow> (v \<noteq> Undefined \<and> js_lt v c) = below v c"
  by (cases v) (auto simp: js_lt_def below_def)

lemma countInc_spec: "temp d \<noteq> Null \<Longrightarrow> countInc d = spec_conditions d"
  using gt_above[of 10 "precip d"] gt_above[of 30 "temp d"] gt_above[of 20 "wind d"]
    lt_below_num[of "temp d" 5]
  unfolding countInc_def spec_conditions_def by simp metis

lemma extremeByMonth_map_of:
  "map_of (extremeByMonth ds) k =
     (if days_of k ds = [] then None else Some (sum_list (map countInc (days_of k ds))))"
  unfolding extremeByMonth_def
proof (induction ds rule: rev_induct)
  case Nil
  then show ?case by (simp add: days_of_def)
next
  case (snoc d ds)
  then show ?case
    by (cases "key_of d = k") (simp_all add: extreme_day_def obj_modify_map_of days_of_def)
qed

lemma extremeEvents_countInc:
  assumes "daily fd \<noteq> []"
  shows "extremeEvents (getHistoricalData fd) =
     map (\<lambda>k. sum_list (map countInc (days_of k (daily fd)))) (orderedMonths fd)"
  using assms by (simp add: getHistoricalData_def Let_def extremeByMonth_map_of)

lemma foldl_countInc: "foldl (\<lambda>cnt d. cnt + countInc d) c ds = c + sum_list (map countInc ds)"
  by (induction ds arbitrary: c) simp_all

text \<open>
  C1, as the code has it. For daily records whose temperature is a number or not set, the
  count charted for a month is the sum, over the month's days, of the number of conditions
  the day triggers (precipitation above 10, temperature above 30 or below 5, wind above
  20): a day that triggers several conditions counts once for each. The total of the
  statistics is the same sum over all days.
\<close>

theorem extremeEvents_conditions:
  assumes "daily fd \<noteq> []" and "\<forall>d\<in>set (daily fd). temp d \<noteq> Null"
  shows "extremeEvents (getHistoricalData fd) =
     map (\<lambda>k. sum_list (map spec_conditions (days_of k (daily fd)))) (orderedMonths fd) \<and>
     totalExtreme (dataStatistics fd) = sum_list (map spec_conditions (daily fd))"
proof -
  have eq: "sum_list (map countInc ds) = sum_list (map spec_conditions ds)"
    if "set ds \<subseteq> set (daily fd)" for ds
  proof -
    have "map countInc ds = map spec_conditions ds"
      using that assms(2) by (auto simp: countInc_spec)
    then show ?thesis by (simp only:)
  qed
  have a: "sum_list (map countInc (days_of k (daily fd))) =
      sum_list (map spec_conditions (days_of k (daily fd)))" for k
    by (rule eq) (auto simp: days_of_def)
  have b: "sum_list (map countInc (daily fd)) = sum_list (map spec_conditions (daily fd))"
    by (rule eq) simp
  show ?thesis
    using assms(1)
    by (simp add: extremeEvents_countInc dataStatistics_def Let_def foldl_countInc a b)
qed

theorem extremeEvents_conditions_witness:
  "daily scenario \<noteq> [] \<and> orderedMonths scenario = [(2024, 1)] \<and>
   sum_list (map spec_conditions (days_of (2024, 1) (daily scenario))) = 4 \<and>
   extremeEvents (getHistoricalData scenario) = [4] \<and>
   totalExtreme (dataStatistics scenario) = 4"
proof -
  have 1: "daily scenario \<noteq> []"
    by (simp add: example_defs)
  have 2: "\<forall>d\<in>set (daily scenario). temp d \<noteq> Null"
    by (simp add: example_defs)
  have 3: "orderedMonths scenario = [(2024, 1)]"
    by (simp add: model_defs example_defs)
  have 4: "sum_list (map spec_conditions (days_of (2024, 1) (daily scenario))) = 4"
    by (simp add: model_defs example_defs)
  have 5: "sum_list (map spec_conditions (daily scenario)) = 4"
    by (simp add: example_defs)
  show ?thesis
    using extremeEvents_conditions[OF 1 2] 1 3 4 5 by simp
qed

text \<open>On the scenario's two days of January 2024 the month's count is 4, while 2 of its
  days trigger a condition.\<close>

theorem extremeEvents_not_day_count:
  "extremeEvents (getHistoricalData scenario) = [4] \<and>
   length (filter spec_extreme_day (days_of (2024, 1) (daily scenario))) = 2"
  by (simp add: model_defs example_defs)

section \<open>Missing values, the detector and the statistics\<close>

lemma map_set_foldl:
  assumes "distinct (map kf ms)" and "m \<in> set ms"
  shows "map_of (foldl (\<lambda>mp m. map_set (kf m) (vf m) mp) [] ms) (kf m) = Some (vf m)"
  using assms
proof (induction ms rule: rev_induct)
  case Nil
  then show ?case by simp
next
  case (snoc x xs)
  show ?case
  proof (cases "m = x")
    case True
    then show ?thesis by (simp add: map_set_def obj_modify_map_of)
  next
    case False
    with snoc.prems have m: "m \<in> set xs" and d: "distinct (map kf xs)"
      and nx: "kf x \<notin> kf ` set xs"
      by simp_all
    from m have "kf m \<in> kf ` set xs" by (rule imageI)
    with nx have "kf m \<noteq> kf x" by metis
    with snoc.IH[OF d m] show ?thesis
      by (simp add: map_set_def obj_modify_map_of)
  qed
qed

lemma mean_or_0_nullish: "mean_or_0 mp k = nullish0 v" if "map_of mp k = Some (nullishNull v)"
  using that by (cases v) (simp_all add: mean_or_0_def)

lemma mean_or_0_foldl:
  assumes "distinct (map kf ms)" and "m \<in> set ms"
  shows "mean_or_0 (foldl (\<lambda>mp m. map_set (kf m) (nullishNull (vf m)) mp) [] ms) (kf m) =
     nullish0 (vf m)"
  by (rule mean_or_0_nullish) (rule map_set_foldl[OF assms])

lemma monthly_chart_data:
  assumes "daily fd \<noteq> []" and "monthly fd \<noteq> []" and "distinct (map month (monthly fd))"
  shows "tempData (getHistoricalData fd) = map (\<lambda>m. nullish0 (meanTemp m)) (monthly fd)"
    and "precipData (getHistoricalData fd) = map (\<lambda>m. nullish0 (meanPrecip m)) (monthly fd)"
    and "windData (getHistoricalData fd) = map (\<lambda>m. nullish0 (meanWind m)) (monthly fd)"
  using assms
  by (simp_all add: getHistoricalData_def Let_def orderedMonths_def tempMeanByMonth_def
      precipMeanByMonth_def windMeanByMonth_def mean_or_0_foldl)

lemma aggregate_nonempty: "ds \<noteq> [] \<Longrightarrow> aggregate ds \<noteq> []"
  using aggregate_months_set[of ds] by auto

lemma processed_chart_data:
  assumes "ds \<noteq> []"
  shows "tempData (getHistoricalData (processed ds)) = map (\<lambda>m. nullish0 (meanTemp m)) (aggregate ds)"
    and "precipData (getHistoricalData (processed ds)) = map (\<lambda>m. nullish0 (meanPrecip m)) (aggregate ds)"
    and "windData (getHistoricalData (processed ds)) = map (\<lambda>m. nullish0 (meanWind m)) (aggregate ds)"
  using monthly_chart_data[of "processed ds"] assms aggregate_nonempty[OF assms]
    aggregate_months_distinct[of ds]
  by (simp_all add: processed_def)

lemma foldl_plus: "foldl (+) (c::rat) vs = c + sum_list vs"
  by (induction vs arbitrary: c) simp_all

lemma nums_empty: "(nums vs = []) = (\<forall>v\<in>set vs. \<not> present v)"
  by (induction vs rule: nums.induct) auto

lemma day_events_absent:
  assumes "e \<in> set (day_events loc d)"
  shows "(\<not> present (temp d) \<longrightarrow> type' e \<noteq> ''Extreme Heat'' \<and> type' e \<noteq> ''Extreme Cold'') \<and>
         (\<not> present (precip d) \<longrightarrow> type' e \<noteq> ''Heavy Rain'') \<and>
         (\<not> present (wind d) \<longrightarrow> type' e \<noteq> ''Strong Winds'')"
  using assms
  by (cases "temp d"; cases "precip d"; cases "wind d")
     (auto simp: day_events_def js_gt_def js_lt_def split: if_splits)

lemma day_events_spec: "day_events loc d = spec_events loc d"
  by (cases "temp d"; cases "precip d"; cases "wind d")
     (simp_all add: day_events_def spec_events_def js_gt_def js_lt_def)

lemma date_desc_key: "(date_desc a b \<le> 0) = (- getTime (date a) \<le> - getTime (date b))"
  by (simp add: date_desc_def)

text \<open>
  C4. When there is a daily record, the list of recent extreme events holds, for every
  daily record and every rule of the detector's table that the record triggers (temperature
  present and above 35, else present and below 0; precipitation present and above 25; wind
  present and above 20), one event with the record's date; nothing is removed, so a day
  that triggers several rules has several events; and the list is in descending order of
  date, days of the same date keeping their order.
\<close>

theorem recentExtremeEvents_sorted:
  assumes "daily fd \<noteq> []"
  shows "recentExtremeEvents fd city state =
           sort_key (\<lambda>e. - getTime (date e))
             (concat (map (spec_events (city @ '', '' @ state)) (daily fd))) \<and>
         mset (recentExtremeEvents fd city state) =
           mset (concat (map (spec_events (city @ '', '' @ state)) (daily fd))) \<and>
         sorted_wrt (\<lambda>a b. getTime (date a) \<ge> getTime (date b))
           (recentExtremeEvents fd city state)"
proof -
  let ?evs = "concat (map (spec_events (city @ '', '' @ state)) (daily fd))"
  have eq: "recentExtremeEvents fd city state = sort_key (\<lambda>e. - getTime (date e)) ?evs"
    using assms
    by (simp add: recentExtremeEvents_def day_events_spec[abs_def] js_sort_sort_key[OF date_desc_key])
  have "sorted (map (\<lambda>e. - getTime (date e)) (sort_key (\<lambda>e. - getTime (date e)) ?evs))"
    by (rule sorted_sort_key)
  then have "sorted_wrt (\<lambda>a b. getTime (date a) \<ge> getTime (date b))
      (sort_key (\<lambda>e. - getTime (date e)) ?evs)"
    by (simp add: sorted_map)
  with eq show ?thesis by simp
qed

theorem recentExtremeEvents_sorted_witness:
  "daily (processed [day_hot_wet_windy]) \<noteq> [] \<and>
   recentExtremeEvents (processed [day_hot_wet_windy]) ''Mumbai'' ''Maharashtra'' =
     [\<lparr>date = date day_hot_wet_windy, type' = ''Extreme Heat'',
       location = ''Mumbai, Maharashtra'', value' = Fixed 36 1 degC\<rparr>,
      \<lparr>date = date day_hot_wet_windy, type' = ''Heavy Rain'',
       location = ''Mumbai, Maharashtra'', value' = Fixed 30 1 ''mm''\<rparr>,
      \<lparr>date = date day_hot_wet_windy, type' = ''Strong Winds'',
       location = ''Mumbai, Maharashtra'', value' = Fixed 25 1 '' km/h''\<rparr>] \<and>
   daily scenario \<noteq> [] \<and>
   map (\<lambda>e. (type' e, getTime (date e))) (recentExtremeEvents scenario ''Mumbai'' ''Maharashtra'') =
     [(''Extreme Cold'', 1705276800000), (''Heavy Rain'', 1705276800000),
      (''Strong Winds'', 1705276800000), (''Extreme Heat'', 1704067200000)]"
proof -
  have 1: "daily (processed [day_hot_wet_windy]) \<noteq> []"
    by (simp add: processed_def)
  have 2: "daily scenario \<noteq> []"
    by (simp add: example_defs)
  show ?thesis
    using recentExtremeEvents_sorted[OF 1, of "''Mumbai''" "''Maharashtra''"]
      recentExtremeEvents_sorted[OF 2, of "''Mumbai''" "''Maharashtra''"]
    by (simp add: example_defs spec_events_def day_hot_wet_windy_def)
qed

lemma Math_max_Cons: "Math_max (x # xs) = Max (set (x # xs))"
  by (simp only: Math_max.simps Max.set_eq_fold)

lemma Math_min_Cons: "Math_min (x # xs) = Min (set (x # xs))"
  by (simp only: Math_min.simps Min.set_eq_fold)

lemma Math_max_Max: "vs \<noteq> [] \<Longrightarrow> Math_max vs = Max (set vs)"
  by (cases vs) (simp, simp only: Math_max_Cons)

lemma Math_min_Min: "vs \<noteq> [] \<Longrightarrow> Math_min vs = Min (set vs)"
  by (cases vs) (simp, simp only: Math_min_Cons)

text \<open>
  C5, as the code has it. For a forecast with at least one daily record the insights and
  the statistics are computed from the present values only: the averages, minima and
  maxima are those of the present values and show as N/A when there is none, except the
  largest precipitation, which then shows as 0; the precipitation total is the sum of the
  present values, 0 when there is none.
\<close>

theorem statistics_of_present_values:
  assumes "forecast \<noteq> []"
  shows "(\<exists>ins. WeatherInsights forecast = Some ins \<and>
      ins_avgTemp ins = shown (Text ''N/A'') (mean (summarize (map temp forecast))) 1 [] \<and>
      ins_maxTemp ins = shown (Text ''N/A'') (maximum (summarize (map temp forecast))) 1 [] \<and>
      ins_minTemp ins = shown (Text ''N/A'') (minimum (summarize (map temp forecast))) 1 [] \<and>
      totalPrecip ins = Fixed (total (summarize (map precip forecast))) 1 [] \<and>
      maxPrecip ins = shown (Text ''0'') (maximum (summarize (map precip forecast))) 1 [] \<and>
      ins_avgWind ins = shown (Text ''N/A'') (mean (summarize (map wind forecast))) 1 [] \<and>
      maxWind ins = shown (Text ''N/A'') (maximum (summarize (map wind forecast))) 1 []) \<and>
      avgTemp (dataStatistics (processed forecast)) =
        shown (Text ''N/A'') (mean (summarize (map temp forecast))) 1 degC \<and>
      totalRainfall (dataStatistics (processed forecast)) =
        (if presentCount (summarize (map precip forecast)) = 0 then Text ''0mm''
         else Fixed (total (summarize (map precip forecast))) 0 ''mm'') \<and>
      avgWind (dataStatistics (processed forecast)) =
        shown (Text ''N/A'') (mean (summarize (map wind forecast))) 1 '' km/h''"
  using assms
  by (simp add: WeatherInsights_def dataStatistics_def processed_def Let_def summarize_def
      shown_def foldl_plus Math_max_Max Math_min_Min)

theorem statistics_of_present_values_witness:
  "three_days \<noteq> [] \<and>
   summarize (map temp three_days) =
     \<lparr>mean = Some 10, minimum = Some 5, maximum = Some 15, total = 20, presentCount = 2\<rparr> \<and>
   (\<exists>ins. WeatherInsights three_days = Some ins \<and>
      ins_avgTemp ins = Fixed 10 1 [] \<and> ins_maxTemp ins = Fixed 15 1 [] \<and>
      ins_minTemp ins = Fixed 5 1 [] \<and> totalPrecip ins = Fixed 20 1 [] \<and>
      maxPrecip ins = Fixed 15 1 [] \<and> ins_avgWind ins = Text ''N/A'' \<and>
      maxWind ins = Text ''N/A'') \<and>
   avgTemp (dataStatistics (processed three_days)) = Fixed 10 1 degC \<and>
   totalRainfall (dataStatistics (processed three_days)) = Fixed 20 0 ''mm'' \<and>
   avgWind (dataStatistics (processed three_days)) = Text ''N/A''"
proof -
  have 1: "three_days \<noteq> []"
    by (simp add: three_days_def)
  have t: "summarize (map temp three_days) =
     \<lparr>mean = Some 10, minimum = Some 5, maximum = Some 15, total = 20, presentCount = 2\<rparr>"
    by (simp add: summarize_def three_days_def)
  have p: "summarize (map precip three_days) =
     \<lparr>mean = Some 10, minimum = Some 5, maximum = Some 15, total = 20, presentCount = 2\<rparr>"
    by (simp add: summarize_def three_days_def)
  have w: "summarize (map wind three_days) =
     \<lparr>mean = None, minimum = None, maximum = None, total = 0, presentCount = 0\<rparr>"
    by (simp add: summarize_def three_days_def)
  show ?thesis
    using statistics_of_present_values[OF 1] 1
    by (simp add: t p w shown_def)
qed

text \<open>With no daily record the statistics are fixed figures, not absent ones, and the
  insights of a day without any value show the largest precipitation as 0.\<close>

theorem statistics_placeholders:
  "avgTemp (dataStatistics no_data) = Text (''23.4'' @ degC) \<and>
   totalRainfall (dataStatistics no_data) = Text ''847mm'' \<and>
   mean (summarize (map temp (daily no_data))) = None \<and>
   total (summarize (map precip (daily no_data))) = 0 \<and>
   WeatherInsights (daily no_data) = None \<and>
   map_option maxPrecip (WeatherInsights [three_days ! 1]) = Some (Text ''0'') \<and>
   maximum (summarize (map precip [three_days ! 1])) = None"
  by (simp add: dataStatistics_def no_data_def summarize_def WeatherInsights_def three_days_def
      Let_def)

lemma spec_mean_Null: "(spec_mean vs = Null) = (vs = [])"
  by (simp add: spec_mean_def)

lemma nullish0_absent: "\<not> present v \<Longrightarrow> nullish0 v = Num 0"
  by (cases v) simp_all

text \<open>
  C2, as the code has it. A missing value (\<^verbatim>\<open>null\<close> or not set) is left out of the
  monthly means, which are \<^verbatim>\<open>null\<close> for a month without a present value, and out of the
  statistics, which then show N/A (0mm for the rainfall); it never gives an event of the
  detector. The chart series replace it by the number 0: the daily series at the day's
  index, and the monthly series for a month whose mean is \<^verbatim>\<open>null\<close>.
\<close>

theorem absent_values:
  assumes "ds \<noteq> []"
  shows
    "(\<forall>m\<in>set (aggregate ds).
        ((\<forall>d\<in>set (days_of (month m) ds). \<not> present (temp d)) \<longrightarrow> meanTemp m = Null) \<and>
        ((\<forall>d\<in>set (days_of (month m) ds). \<not> present (precip d)) \<longrightarrow> meanPrecip m = Null) \<and>
        ((\<forall>d\<in>set (days_of (month m) ds). \<not> present (wind d)) \<longrightarrow> meanWind m = Null)) \<and>
     tempData (getHistoricalData (processed ds)) = map (\<lambda>m. nullish0 (meanTemp m)) (aggregate ds) \<and>
     precipData (getHistoricalData (processed ds)) =
       map (\<lambda>m. nullish0 (meanPrecip m)) (aggregate ds) \<and>
     windData (getHistoricalData (processed ds)) = map (\<lambda>m. nullish0 (meanWind m)) (aggregate ds) \<and>
     (\<forall>i<length ds.
        (\<not> present (temp (ds ! i)) \<longrightarrow> temps (processed ds) ! i = Num 0) \<and>
        (\<not> present (precip (ds ! i)) \<longrightarrow> precips (processed ds) ! i = Num 0) \<and>
        (\<not> present (wind (ds ! i)) \<longrightarrow> winds (processed ds) ! i = Num 0)) \<and>
     ((\<forall>d\<in>set ds. \<not> present (temp d)) \<longrightarrow>
        avgTemp (dataStatistics (processed ds)) = Text ''N/A'') \<and>
     ((\<forall>d\<in>set ds. \<not> present (precip d)) \<longrightarrow>
        totalRainfall (dataStatistics (processed ds)) = Text ''0mm'') \<and>
     ((\<forall>d\<in>set ds. \<not> present (wind d)) \<longrightarrow>
        avgWind (dataStatistics (processed ds)) = Text ''N/A'') \<and>
     (\<forall>d\<in>set ds. \<forall>e\<in>set (day_events loc d).
        (\<not> present (temp d) \<longrightarrow> type' e \<noteq> ''Extreme Heat'' \<and> type' e \<noteq> ''Extreme Cold'') \<and>
        (\<not> present (precip d) \<longrightarrow> type' e \<noteq> ''Heavy Rain'') \<and>
        (\<not> present (wind d) \<longrightarrow> type' e \<noteq> ''Strong Winds''))"
proof -
  have means: "\<forall>m\<in>set (aggregate ds).
        ((\<forall>d\<in>set (days_of (month m) ds). \<not> present (temp d)) \<longrightarrow> meanTemp m = Null) \<and>
        ((\<forall>d\<in>set (days_of (month m) ds). \<not> present (precip d)) \<longrightarrow> meanPrecip m = Null) \<and>
        ((\<forall>d\<in>set (days_of (month m) ds). \<not> present (wind d)) \<longrightarrow> meanWind m = Null)"
  proof
    fix m assume "m \<in> set (aggregate ds)"
    from aggregate_entry[OF this]
    have "m = finish_month (group_acc (month m) (days_of (month m) ds))" by simp
    then have "meanTemp m = spec_mean (nums (map temp (days_of (month m) ds)))"
      and "meanPrecip m = spec_mean (nums (map precip (days_of (month m) ds)))"
      and "meanWind m = spec_mean (nums (map wind (days_of (month m) ds)))"
      by (metis finish_month_group monthly_record.select_convs(2,3,4))+
    then show "((\<forall>d\<in>set (days_of (month m) ds). \<not> present (temp d)) \<longrightarrow> meanTemp m = Null) \<and>
        ((\<forall>d\<in>set (days_of (month m) ds). \<not> present (precip d)) \<longrightarrow> meanPrecip m = Null) \<and>
        ((\<forall>d\<in>set (days_of (month m) ds). \<not> present (wind d)) \<longrightarrow> meanWind m = Null)"
      by (simp add: spec_mean_Null nums_empty)
  qed
  have series: "\<forall>i<length ds.
        (\<not> present (temp (ds ! i)) \<longrightarrow> temps (processed ds) ! i = Num 0) \<and>
        (\<not> present (precip (ds ! i)) \<longrightarrow> precips (processed ds) ! i = Num 0) \<and>
        (\<not> present (wind (ds ! i)) \<longrightarrow> winds (processed ds) ! i = Num 0)"
    by (simp add: temps_def precips_def winds_def processed_def nullish0_absent)
  have stats: "((\<forall>d\<in>set ds. \<not> present (temp d)) \<longrightarrow>
        avgTemp (dataStatistics (processed ds)) = Text ''N/A'') \<and>
     ((\<forall>d\<in>set ds. \<not> present (precip d)) \<longrightarrow>
        totalRainfall (dataStatistics (processed ds)) = Text ''0mm'') \<and>
     ((\<forall>d\<in>set ds. \<not> present (wind d)) \<longrightarrow>
        avgWind (dataStatistics (processed ds)) = Text ''N/A'')"
    using assms by (simp add: dataStatistics_def processed_def Let_def nums_empty)
  have events: "\<forall>d\<in>set ds. \<forall>e\<in>set (day_events loc d).
        (\<not> present (temp d) \<longrightarrow> type' e \<noteq> ''Extreme Heat'' \<and> type' e \<noteq> ''Extreme Cold'') \<and>
        (\<not> present (precip d) \<longrightarrow> type' e \<noteq> ''Heavy Rain'') \<and>
        (\<not> present (wind d) \<longrightarrow> type' e \<noteq> ''Strong Winds'')"
    using day_events_absent by blast
  from means series stats events processed_chart_data[OF assms] show ?thesis
    by (simp only:) simp
qed

theorem absent_values_witness:
  "[day_feb01] \<noteq> [] \<and> \<not> present (temp day_feb01) \<and> \<not> present (wind day_feb01) \<and>
   map meanTemp (aggregate [day_feb01]) = [Null] \<and>
   map meanWind (aggregate [day_feb01]) = [Null] \<and>
   tempData (getHistoricalData (processed [day_feb01])) = [Num 0] \<and>
   windData (getHistoricalData (processed [day_feb01])) = [Num 0] \<and>
   temps (processed [day_feb01]) ! 0 = Num 0 \<and>
   winds (processed [day_feb01]) ! 0 = Num 0 \<and>
   avgTemp (dataStatistics (processed [day_feb01])) = Text ''N/A'' \<and>
   avgWind (dataStatistics (processed [day_feb01])) = Text ''N/A'' \<and>
   day_events ''Mumbai, Maharashtra'' day_feb01 = []"
proof -
  have 1: "[day_feb01] \<noteq> []" by simp
  have agg: "aggregate [day_feb01] =
      [\<lparr>month = (2024, 2), year = 2024, monthName = ''Feb 24'', meanTemp = Null,
        meanPrecip = Num 3, meanWind = Null, daysWithData = 1\<rparr>]"
    by (simp add: model_defs example_defs)
  have ev: "day_events ''Mumbai, Maharashtra'' day_feb01 = []"
    by (simp add: model_defs example_defs)
  have ab: "\<not> present (temp day_feb01)" "\<not> present (wind day_feb01)"
    by (simp_all add: example_defs)
  show ?thesis
    using absent_values[OF 1, of "''Mumbai, Maharashtra''"] ab ev
    by (simp add: agg)
qed

text \<open>The day of February whose temperature is \<^verbatim>\<open>null\<close> is charted with temperature 0,
  its month with mean temperature 0, and it counts as an extreme day of the month.\<close>

theorem absent_value_charted_as_zero:
  "temp day_feb01 = Null \<and> temps (processed [day_feb01]) = [Num 0] \<and>
   tempData (getHistoricalData (processed [day_feb01])) = [Num 0] \<and>
   countInc day_feb01 = 1 \<and> spec_conditions day_feb01 = 0"
  by (simp add: model_defs example_defs)

section \<open>The fields of a daily record\<close>

lemma set_param_fields:
  "date (set_param dat i obj p) = date obj"
  "temp (set_param dat i obj p) =
     (if p = ''T2M'' then (case value_at dat p i of None \<Rightarrow> Null | Some v \<Rightarrow> Num v) else temp obj)"
  "precip (set_param dat i obj p) =
     (if p = ''PRECTOT'' then (case value_at dat p i of None \<Rightarrow> Null | Some v \<Rightarrow> Num v)
      else precip obj)"
  "wind (set_param dat i obj p) =
     (if p = ''WS2M'' then (case value_at dat p i of None \<Rightarrow> Null | Some v \<Rightarrow> Num (v * 3.6))
      else wind obj)"
  by (simp_all add: set_param_def split: option.splits)

lemma foldl_set_param:
  "date (foldl (set_param dat i) obj avail) = date obj \<and>
   temp (foldl (set_param dat i) obj avail) =
     (if ''T2M'' \<in> set avail
      then (case value_at dat ''T2M'' i of None \<Rightarrow> Null | Some v \<Rightarrow> Num v) else temp obj) \<and>
   precip (foldl (set_param dat i) obj avail) =
     (if ''PRECTOT'' \<in> set avail
      then (case value_at dat ''PRECTOT'' i of None \<Rightarrow> Null | Some v \<Rightarrow> Num v) else precip obj) \<and>
   wind (foldl (set_param dat i) obj avail) =
     (if ''WS2M'' \<in> set avail
      then (case value_at dat ''WS2M'' i of None \<Rightarrow> Null | Some v \<Rightarrow> Num (v * 3.6))
      else wind obj)"
proof (induction avail rule: rev_induct)
  case Nil
  then show ?case by simp
next
  case (snoc p ps)
  then show ?case
    by (simp add: set_param_fields)
qed

lemma make_daily_fields:
  "make_daily dat avail d i =
     \<lparr>date = d, temp = field_value dat avail ''T2M'' i 1,
      precip = field_value dat avail ''PRECTOT'' i 1,
      wind = field_value dat avail ''WS2M'' i 3.6\<rparr>"
proof -
  let ?obj = "\<lparr>date = d, temp = Undefined, precip = Undefined, wind = Undefined\<rparr>"
  have "make_daily dat avail d i = foldl (set_param dat i) ?obj avail"
    by (simp add: make_daily_def)
  moreover have "date (foldl (set_param dat i) ?obj avail) = d"
    and "temp (foldl (set_param dat i) ?obj avail) = field_value dat avail ''T2M'' i 1"
    and "precip (foldl (set_param dat i) ?obj avail) = field_value dat avail ''PRECTOT'' i 1"
    and "wind (foldl (set_param dat i) ?obj avail) = field_value dat avail ''WS2M'' i 3.6"
    using foldl_set_param[of dat i ?obj avail]
    by (simp_all add: field_value_def split: option.splits)
  ultimately show ?thesis
    by (cases "make_daily dat avail d i") simp
qed

text \<open>
  C9, as the code has it. When the payload has temperature dates, there is one daily
  record per date, and its fields are set from the codes \<^verbatim>\<open>T2M\<close> (temperature),
  \<^verbatim>\<open>PRECTOT\<close> (precipitation) and \<^verbatim>\<open>WS2M\<close> (wind, multiplied by 3.6) and from no
  other code: a field is not set when its code is not listed as available, it is
  \<^verbatim>\<open>null\<close> when the code is listed and the payload has no entry, no values or too few
  values for it, and no case fails.
\<close>

theorem processApiData_fields:
  assumes "data a = Some dat" and "map_of dat ''T2M'' = Some e" and "dates e = Some ds"
    and "i < length ds"
  shows "length (daily (processApiData (Some a))) = length ds \<and>
     daily (processApiData (Some a)) ! i =
       \<lparr>date = ds ! i,
        temp = field_value dat (available a) ''T2M'' i 1,
        precip = field_value dat (available a) ''PRECTOT'' i 1,
        wind = field_value dat (available a) ''WS2M'' i 3.6\<rparr>"
proof -
  from assms(4) obtain d ds' where ds: "ds = d # ds'"
    by (cases ds) auto
  have "daily (processApiData (Some a)) =
      map (\<lambda>(d', index). make_daily dat (available a) d' index) (zip ds [0 ..< length ds])"
    using assms(1-3) by (simp add: processApiData_def ds Let_def)
  with assms(4) show ?thesis
    by (simp add: make_daily_fields)
qed

theorem processApiData_fields_witness:
  "data payload_corr = Some payload_data \<and>
   map_of payload_data ''T2M'' = Some \<lparr>dates = Some two_dates, values' = Some [36]\<rparr> \<and>
   1 < length two_dates \<and>
   length (daily (processApiData (Some payload_corr))) = 2 \<and>
   daily (processApiData (Some payload_corr)) ! 1 =
     \<lparr>date = \<lparr>getTime = 1705276800000, getFullYear = 2024, getMonth = 0\<rparr>,
      temp = Null, precip = Undefined, wind = Num (7 * 3.6)\<rparr>"
proof -
  have 1: "data payload_corr = Some payload_data"
    by (simp add: payload_corr_def)
  have 2: "map_of payload_data ''T2M'' = Some \<lparr>dates = Some two_dates, values' = Some [36]\<rparr>"
    by (simp add: payload_data_def)
  have 3: "dates \<lparr>dates = Some two_dates, values' = Some [36]\<rparr> = Some two_dates"
    by simp
  have 4: "1 < length two_dates"
    by (simp add: two_dates_def)
  show ?thesis
    using processApiData_fields[OF 1 2 3 4] 1 2 4
    by (simp add: field_value_def value_at_def payload_corr_def payload_data_def two_dates_def)
qed

text \<open>Precipitation delivered under the code \<^verbatim>\<open>PRECTOTCORR\<close> is not read: the daily
  records have no precipitation.\<close>

theorem processApiData_ignores_PRECTOTCORR:
  "''PRECTOTCORR'' \<in> set (available payload_corr) \<and>
   value_at payload_data ''PRECTOTCORR'' 1 = Some 30 \<and>
   map precip (daily (processApiData (Some payload_corr))) = [Undefined, Undefined]"
  by (simp add: model_defs payload_corr_def payload_data_def two_dates_def)


section \<open>The indices and points of a chart\<close>

lemma nums_mem: "(r \<in> set (nums vs)) = (Num r \<in> set vs)"
  by (induction vs rule: nums.induct) auto

lemma Math_max_mem: "nums dat \<noteq> [] \<Longrightarrow> Num (Math_max (nums dat)) \<in> set dat"
  using Max_in[of "set (nums dat)"] by (simp add: Math_max_Max nums_mem[symmetric])

lemma Math_min_mem: "nums dat \<noteq> [] \<Longrightarrow> Num (Math_min (nums dat)) \<in> set dat"
  using Min_in[of "set (nums dat)"] by (simp add: Math_min_Min nums_mem[symmetric])

lemma indexOf_ge: "- 1 \<le> indexOf xs v"
  by (induction xs) (auto simp: Let_def)

lemma indexOf_neg: "(indexOf xs v < 0) = (v \<notin> set xs)"
  using indexOf_ge[of _ v] by (induction xs) (auto simp: Let_def)

lemma indexOf_mem:
  "v \<in> set xs \<Longrightarrow>
     0 \<le> indexOf xs v \<and> indexOf xs v < int (length xs) \<and> xs ! nat (indexOf xs v) = v"
proof (induction xs)
  case Nil
  then show ?case by simp
next
  case (Cons x xs)
  show ?case
  proof (cases "x = v")
    case True
    then show ?thesis by simp
  next
    case False
    with Cons.prems have v: "v \<in> set xs" by simp
    from Cons.IH[OF v] False show ?thesis
      by (simp add: Let_def nat_add_distrib)
  qed
qed

lemma indexOf_nth: "distinct xs \<Longrightarrow> i < length xs \<Longrightarrow> indexOf xs (xs ! i) = int i"
proof (induction xs arbitrary: i)
  case Nil
  then show ?case by simp
next
  case (Cons x xs)
  show ?case
  proof (cases i)
    case 0
    then show ?thesis by simp
  next
    case (Suc j)
    with Cons.prems have j: "j < length xs" and d: "distinct xs" and nx: "x \<notin> set xs"
      by simp_all
    from j nx have "x \<noteq> xs ! j" by (metis nth_mem)
    with Cons.IH[OF d j] Suc show ?thesis
      by (simp add: Let_def)
  qed
qed

lemma sampleRate_pos: "0 < sampleRate n"
  by (simp add: sampleRate_def)

lemma stride_set:
  assumes "0 < (r::int)" and "i < n"
  shows "{j. i \<le> j \<and> j < n \<and> r dvd (j - i)} =
     insert i {j. i + r \<le> j \<and> j < n \<and> r dvd (j - (i + r))}"
proof (rule set_eqI)
  fix j
  have "r dvd (j - (i + r)) = (r dvd (j - i))"
    by (metis add_diff_cancel_right' diff_diff_eq dvd_diff_right_iff dvd_refl diff_add_cancel)
  moreover have "i + r \<le> j" if "i \<le> j" "j \<noteq> i" "r dvd (j - i)"
  proof -
    from that have "0 < j - i" by simp
    with that(3) have "r \<le> j - i" by (rule zdvd_imp_le)
    then show ?thesis by simp
  qed
  ultimately show "(j \<in> {j. i \<le> j \<and> j < n \<and> r dvd (j - i)}) =
      (j \<in> insert i {j. i + r \<le> j \<and> j < n \<and> r dvd (j - (i + r))})"
    using assms by auto
qed

lemma sampledIndices_set:
  "set (sampledIndices i n imp) =
     {j. i \<le> j \<and> j < n \<and> sampleRate n dvd (j - i)} - set imp"
proof (induction i n imp rule: sampledIndices.induct)
  case (1 i n imp)
  show ?case
  proof (cases "i < n")
    case True
    note ih = 1[OF True]
    have "set (sampledIndices i n imp) =
        (if i \<notin> set imp then {i} else {}) \<union> set (sampledIndices (i + sampleRate n) n imp)"
      using True by (subst sampledIndices.simps) auto
    also have "\<dots> = insert i {j. i + sampleRate n \<le> j \<and> j < n \<and>
        sampleRate n dvd (j - (i + sampleRate n))} - set imp"
      by (auto simp: ih)
    also have "\<dots> = {j. i \<le> j \<and> j < n \<and> sampleRate n dvd (j - i)} - set imp"
      by (simp only: stride_set[OF sampleRate_pos True])
    finally show ?thesis .
  next
    case False
    then show ?thesis
      by (subst sampledIndices.simps) auto
  qed
qed

lemma sampledIndices_distinct: "distinct (sampledIndices i n imp)"
proof (induction i n imp rule: sampledIndices.induct)
  case (1 i n imp)
  show ?case
  proof (cases "i < n")
    case True
    have "i \<notin> set (sampledIndices (i + sampleRate n) n imp)"
      using sampleRate_pos[of n] by (simp add: sampledIndices_set)
    with 1[OF True] True show ?thesis
      by (subst sampledIndices.simps) simp
  next
    case False
    then show ?thesis
      by (subst sampledIndices.simps) simp
  qed
qed

lemma js_Set_set: "set (js_Set xs) = set xs"
  by (simp add: js_Set_def)

lemma js_Set_distinct: "distinct (js_Set xs)"
  by (simp add: js_Set_def)

lemma js_sort_minus: "js_sort (\<lambda>a b. a - b) xs = sort (xs :: int list)"
  by (rule js_sort_sort_key) simp

lemma sort_distinct: "distinct xs \<Longrightarrow> sort xs = sorted_list_of_set (set xs)"
  by (simp add: sorted_list_of_set_sort_remdups distinct_remdups_id)

lemma pointIndices_sampled:
  assumes "compact'" and "length dat > 100"
  shows "pointIndices compact' dat =
     sorted_list_of_set
       ({0, int (length dat) - 1, indexOf dat (Num (Math_max (nums dat))),
         indexOf dat (Num (Math_min (nums dat)))} \<union>
        {j. 0 \<le> j \<and> j < int (length dat) \<and> j mod sampleRate (int (length dat)) = 0})"
proof -
  let ?imp = "js_Set [0, int (length dat) - 1, indexOf dat (Num (Math_max (nums dat))),
         indexOf dat (Num (Math_min (nums dat)))]"
  let ?all = "?imp @ sampledIndices 0 (int (length dat)) ?imp"
  have d: "distinct ?all"
    by (simp add: js_Set_distinct sampledIndices_distinct sampledIndices_set)
  have s: "set ?all = {0, int (length dat) - 1, indexOf dat (Num (Math_max (nums dat))),
         indexOf dat (Num (Math_min (nums dat)))} \<union>
        {j. 0 \<le> j \<and> j < int (length dat) \<and> j mod sampleRate (int (length dat)) = 0}"
    by (auto simp: js_Set_set sampledIndices_set mod_eq_0_iff_dvd)
  have "pointIndices compact' dat = js_sort (\<lambda>a b. a - b) ?all"
    using assms by (simp add: pointIndices_def isLargeDataset_def Let_def)
  also have "\<dots> = sorted_list_of_set (set ?all)"
    by (simp only: js_sort_minus sort_distinct[OF d])
  finally show ?thesis
    by (simp only: s)
qed

lemma pointIndices_all:
  "\<not> (compact' \<and> length dat > 100) \<Longrightarrow> pointIndices compact' dat = map int [0 ..< length dat]"
  by (auto simp: pointIndices_def isLargeDataset_def)

lemma pointIndices_distinct: "distinct (pointIndices compact' dat)"
proof (cases "compact' \<and> length dat > 100")
  case True
  then show ?thesis by (simp add: pointIndices_sampled)
next
  case False
  then show ?thesis by (simp add: pointIndices_all distinct_map)
qed

lemma pointIndices_sampled_set:
  assumes "compact'" and "length dat > 100"
  shows "set (pointIndices compact' dat) =
       {0, int (length dat) - 1, indexOf dat (Num (Math_max (nums dat))),
         indexOf dat (Num (Math_min (nums dat)))} \<union>
        {j. 0 \<le> j \<and> j < int (length dat) \<and> j mod sampleRate (int (length dat)) = 0}"
proof -
  let ?imp = "js_Set [0, int (length dat) - 1, indexOf dat (Num (Math_max (nums dat))),
         indexOf dat (Num (Math_min (nums dat)))]"
  have "pointIndices compact' dat =
      js_sort (\<lambda>a b. a - b) (?imp @ sampledIndices 0 (int (length dat)) ?imp)"
    using assms by (simp add: pointIndices_def isLargeDataset_def Let_def)
  then show ?thesis
    by (auto simp: js_sort_minus js_Set_set sampledIndices_set mod_eq_0_iff_dvd)
qed

lemma LineChart_Chart:
  assumes "LineChart dat height compact' = Chart idx pts"
  shows "dat \<noteq> []" and "nums dat \<noteq> []" and "idx = pointIndices compact' dat"
    and "pts = List.map_filter (point_of compact' height dat) idx"
  using assms by (auto simp: LineChart_def split: if_splits)

text \<open>
  C7, as the code has it. A chart that is drawn keeps every index of the series unless it
  is compact and the series has more than 100 values; then it keeps exactly the first
  index, the last, the index of the largest and of the smallest present value, and every
  Nth index for N the larger of 1 and the length divided by 50, rounded down, without
  duplicates and in ascending order. In both cases the first and the last index are kept.
\<close>

theorem LineChart_indices:
  assumes "LineChart dat height compact' = Chart idx pts"
  shows "idx =
     (if compact' \<and> length dat > 100 then sorted_list_of_set (spec_retained dat)
      else map int [0 ..< length dat]) \<and>
     0 \<in> set idx \<and> int (length dat) - 1 \<in> set idx \<and>
     data_at dat (indexOf dat (Num (Max (set (nums dat))))) = Num (Max (set (nums dat))) \<and>
     data_at dat (indexOf dat (Num (Min (set (nums dat))))) = Num (Min (set (nums dat)))"
proof -
  note c = LineChart_Chart[OF assms]
  have mx: "Math_max (nums dat) = Max (set (nums dat))"
    and mn: "Math_min (nums dat) = Min (set (nums dat))"
    using c(2) by (simp_all add: Math_max_Max Math_min_Min)
  have idx: "idx =
     (if compact' \<and> length dat > 100 then sorted_list_of_set (spec_retained dat)
      else map int [0 ..< length dat])"
  proof (cases "compact' \<and> length dat > 100")
    case True
    then show ?thesis
      using pointIndices_sampled[of compact' dat]
      by (simp add: c(3) spec_retained_def sampleRate_def mx mn)
  next
    case False
    show ?thesis
      by (simp only: c(3) pointIndices_all[OF False] False if_False)
  qed
  have ends: "0 \<in> set idx \<and> int (length dat) - 1 \<in> set idx"
  proof (cases "compact' \<and> length dat > 100")
    case True
    then show ?thesis
      using pointIndices_sampled_set[of compact' dat] by (simp add: c(3))
  next
    case False
    have "0 < length dat" using c(1) by simp
    then have "0 \<in> set [0 ..< length dat]" and "length dat - 1 \<in> set [0 ..< length dat]"
      by simp_all
    then have "int 0 \<in> set (map int [0 ..< length dat])"
      and "int (length dat - 1) \<in> set (map int [0 ..< length dat])"
      by (simp_all only: set_map image_eqI)
    moreover have "int (length dat - 1) = int (length dat) - 1"
      using c(1) by (cases dat) simp_all
    ultimately show ?thesis
      using pointIndices_all[OF False] by (simp add: c(3))
  qed
  have "data_at dat (indexOf dat (Num (Max (set (nums dat))))) = Num (Max (set (nums dat)))"
    using indexOf_mem[OF Math_max_mem[OF c(2)]] by (simp add: data_at_def mx)
  moreover have
    "data_at dat (indexOf dat (Num (Min (set (nums dat))))) = Num (Min (set (nums dat)))"
    using indexOf_mem[OF Math_min_mem[OF c(2)]] by (simp add: data_at_def mn)
  ultimately show ?thesis
    using idx ends by simp
qed

lemma nums_replicate: "nums (replicate n (Num r)) = replicate n r"
  by (induction n) simp_all

lemma indexOf_replicate: "0 < n \<Longrightarrow> indexOf (replicate n v) v = 0"
  by (cases n) simp_all

lemma indexOf_replicate_append:
  "v \<noteq> x \<Longrightarrow> v \<in> set ys \<Longrightarrow> indexOf (replicate n x @ ys) v = int n + indexOf ys v"
proof (induction n)
  case 0
  then show ?case by simp
next
  case (Suc n)
  from Suc.prems(2) have "\<not> indexOf ys v < 0"
    by (simp add: indexOf_neg)
  with Suc show ?case
    by (simp add: Let_def)
qed

lemma series_200_facts:
  "length series_200 = 200"
  "nums series_200 \<noteq> []"
  "Max (set (nums series_200)) = 7"
  "Min (set (nums series_200)) = - 3"
  by (simp_all add: series_200_def nums_append nums_replicate)

lemma series_200_index:
  "indexOf series_200 (Num 7) = 120"
  "indexOf series_200 (Num (- 3)) = 122"
  by (simp_all add: series_200_def indexOf_replicate_append)

theorem LineChart_indices_witness:
  "LineChart series_200 140 True =
     Chart (pointIndices True series_200)
       (List.map_filter (point_of True 140 series_200) (pointIndices True series_200)) \<and>
   pointIndices True series_200 =
     sorted_list_of_set ({0, 199, 120, 122} \<union> {j. 0 \<le> j \<and> j < 200 \<and> j mod 4 = 0}) \<and>
   0 \<in> set (pointIndices True series_200) \<and> 199 \<in> set (pointIndices True series_200) \<and>
   LineChart (replicate 50 (Num 1)) 140 True =
     Chart (pointIndices True (replicate 50 (Num 1)))
       (List.map_filter (point_of True 140 (replicate 50 (Num 1)))
          (pointIndices True (replicate 50 (Num 1)))) \<and>
   pointIndices True (replicate 50 (Num 1)) = map int [0 ..< 50]"
proof -
  have a: "LineChart series_200 140 True =
     Chart (pointIndices True series_200)
       (List.map_filter (point_of True 140 series_200) (pointIndices True series_200))"
    using series_200_facts(1,2) by (auto simp: LineChart_def)
  have b: "LineChart (replicate 50 (Num 1)) 140 True =
     Chart (pointIndices True (replicate 50 (Num 1)))
       (List.map_filter (point_of True 140 (replicate 50 (Num 1)))
          (pointIndices True (replicate 50 (Num 1))))"
    by (simp add: LineChart_def nums_replicate)
  have s: "spec_retained series_200 =
      {0, 199, 120, 122} \<union> {j. 0 \<le> j \<and> j < 200 \<and> j mod 4 = 0}"
    by (simp add: spec_retained_def series_200_facts series_200_index)
  have large: "True \<and> length series_200 > 100"
    by (simp add: series_200_facts(1))
  note t = LineChart_indices[OF a, unfolded if_P[OF large]]
  note i = t[THEN conjunct1]
  note m = t[THEN conjunct2, THEN conjunct1]
  have m': "199 \<in> set (pointIndices True series_200)"
    using t[THEN conjunct2, THEN conjunct2, THEN conjunct1]
    by (simp only: series_200_facts(1)) simp
  have small: "\<not> (True \<and> length (replicate 50 (Num 1)) > 100)"
    by simp
  note j = LineChart_indices[OF b, unfolded if_not_P[OF small], THEN conjunct1]
  have j': "pointIndices True (replicate 50 (Num 1)) = map int [0 ..< 50]"
    using j by simp
  from a b i[unfolded s] m m' j' show ?thesis
    by (intro conjI)
qed

text \<open>A compact chart of a series of exactly 100 values keeps all of them, index 1
  included, which is none of the indices retained by sampling.\<close>

theorem LineChart_100_kept_whole:
  "length (replicate 100 (Num 1)) = 100 \<and>
   LineChart (replicate 100 (Num 1)) 140 True =
     Chart (map int [0 ..< 100])
       (List.map_filter (point_of True 140 (replicate 100 (Num 1))) (map int [0 ..< 100])) \<and>
   1 \<in> set (map int [0 ..< 100]) \<and>
   1 \<notin> spec_retained (replicate 100 (Num 1))"
proof -
  have "int 1 \<in> set (map int [0 ..< 100])"
    by (simp only: set_map set_upt) (rule imageI, simp)
  then show ?thesis
    by (simp add: LineChart_def pointIndices_def isLargeDataset_def nums_replicate
        spec_retained_def indexOf_replicate)
qed

text \<open>
  C8. In a chart that is drawn, the point at position \<open>i\<close> of the \<open>m\<close> indices kept has
  the horizontal coordinate \<open>i / (m - 1) * (width - 24) + 12\<close>, which is 12 when \<open>m = 1\<close>;
  the width is 300 for a compact chart and else the larger of 300 and 60 times the
  length. The polyline has the points of the kept indices whose value is present.
\<close>

theorem LineChart_x_coord:
  assumes "LineChart dat height compact' = Chart idx pts" and "i < length idx"
  shows "x_coord compact' dat (idx ! i) =
       (if length idx = 1 then 12
        else of_nat i / of_nat (length idx - 1) * (chart_width compact' dat - 24) + 12) \<and>
     chart_width compact' dat = (if compact' then 300 else max 300 (of_nat (length dat) * 60)) \<and>
     pts = List.map_filter (point_of compact' height dat) idx \<and>
     point_of compact' height dat (idx ! i) =
       (case data_at dat (idx ! i) of
          Num v \<Rightarrow> Some (x_coord compact' dat (idx ! i), y_coord height dat v)
        | _ \<Rightarrow> None)"
proof -
  note c = LineChart_Chart[OF assms(1)]
  have i: "i < length (pointIndices compact' dat)"
    using assms(2) c(3) by simp
  have pos: "(if compact' \<and> isLargeDataset dat
              then indexOf (pointIndices compact' dat) (pointIndices compact' dat ! i)
              else pointIndices compact' dat ! i) = int i"
  proof (cases "compact' \<and> isLargeDataset dat")
    case True
    then show ?thesis
      using indexOf_nth[OF pointIndices_distinct i] by simp
  next
    case False
    then have nl: "\<not> (compact' \<and> length dat > 100)"
      by (simp add: isLargeDataset_def)
    have pi: "pointIndices compact' dat = map int [0 ..< length dat]"
      by (rule pointIndices_all[OF nl])
    from i have "i < length dat" by (simp add: pi)
    then have "pointIndices compact' dat ! i = int i" by (simp add: pi)
    then show ?thesis by (simp only: False if_False)
  qed
  have tot: "(if compact' \<and> isLargeDataset dat
              then int (length (pointIndices compact' dat)) - 1 else int (length dat) - 1) =
             int (length (pointIndices compact' dat)) - 1"
  proof (cases "compact' \<and> isLargeDataset dat")
    case True
    then show ?thesis by simp
  next
    case False
    then have nl: "\<not> (compact' \<and> length dat > 100)"
      by (simp add: isLargeDataset_def)
    have "length (pointIndices compact' dat) = length dat"
      by (simp add: pointIndices_all[OF nl])
    then show ?thesis by (simp only: False if_False)
  qed
  have x: "x_coord compact' dat (pointIndices compact' dat ! i) =
      of_int (int i) /
        of_int (if int (length (pointIndices compact' dat)) - 1 = 0 then 1
                else int (length (pointIndices compact' dat)) - 1) *
        (chart_width compact' dat - 24) + 12"
    unfolding x_coord_def Let_def pos tot ..
  have "x_coord compact' dat (idx ! i) =
       (if length idx = 1 then 12
        else of_nat i / of_nat (length idx - 1) * (chart_width compact' dat - 24) + 12)"
  proof (cases "length idx = 1")
    case True
    with assms(2) have "i = 0" by simp
    with True show ?thesis
      using x by (simp add: c(3))
  next
    case False
    with assms(2) have "1 < length idx" by simp
    then have "of_int (int (length idx) - 1) = (of_nat (length idx - 1) :: rat)"
      by simp
    with False \<open>1 < length idx\<close> show ?thesis
      using x by (simp add: c(3))
  qed
  then show ?thesis
    using c(4) by (simp add: chart_width_def point_of_def)
qed

theorem LineChart_x_coord_witness:
  "LineChart [Num 1, Null, Num 3] 140 False = Chart [0, 1, 2] [(12, 110), (288, 12)] \<and>
   2 < length [0, 1, 2 :: int] \<and>
   x_coord False [Num 1, Null, Num 3] 2 = 2 / 2 * (300 - 24) + 12 \<and>
   LineChart [Num 5] 140 False = Chart [0] [(12, 110)] \<and>
   x_coord False [Num 5] 0 = 12"
proof -
  have a: "LineChart [Num 1, Null, Num 3] 140 False = Chart [0, 1, 2] [(12, 110), (288, 12)]"
    by (simp add: model_defs List.map_filter_def)
  have b: "LineChart [Num 5] 140 False = Chart [0] [(12, 110)]"
    by (simp add: model_defs List.map_filter_def)
  show ?thesis
    using LineChart_x_coord[OF a, of 2] LineChart_x_coord[OF b, of 0] a b
    by simp
qed

end
